theory Spec2Isabelle
  imports Complex_Main "HOL-Library.Log_Nat"
begin

section \<open>JavaScript numbers\<close>

text \<open>
  A JavaScript \<^verbatim>\<open>number\<close> is a binary64 value: a finite value, one of the two infinities,
  or NaN. A finite value is carried as the real it denotes; signed zeros are not
  distinguished. Every arithmetic operation returns the exact result rounded to the nearest
  binary64 value, ties to even.
\<close>

datatype number = Num real | PosInf | NegInf | NaN

fun finite_num :: "number \<Rightarrow> bool" where
  "finite_num (Num a) = True"
| "finite_num _ = False"

text \<open>The infinity with the sign of a non-zero real.\<close>

definition signed_inf :: "real \<Rightarrow> number" where
  "signed_inf s = (if 0 < s then PosInf else NegInf)"

subsection \<open>Rounding\<close>

text \<open>
  Rounding of a real to the nearest binary64 value, ties to even: 53 significant bits,
  exponents from \<open>-1022\<close> (below it the spacing stays \<open>2 powi -1074\<close>), overflow to an
  infinity from \<open>2 powi 1024\<close> on.
\<close>

text \<open>The exponent \<open>e\<close> with \<open>2 powi e \<le> \<bar>r\<bar> < 2 powi (e + 1)\<close>, for \<open>r \<noteq> 0\<close>.\<close>

definition binary_exponent :: "real \<Rightarrow> int" where
  "binary_exponent r =
     (if 1 \<le> \<bar>r\<bar> then bitlen \<lfloor>\<bar>r\<bar>\<rfloor> - 1 else - bitlen (\<lceil>1 / \<bar>r\<bar>\<rceil> - 1))"

definition round_ties_even :: "real \<Rightarrow> int" where
  "round_ties_even r =
     (let f = \<lfloor>r\<rfloor>; d = r - of_int f
      in if d < 1 / 2 then f else if 1 / 2 < d then f + 1 else if even f then f else f + 1)"

definition binary64 :: "real \<Rightarrow> number" where
  "binary64 r =
     (if r = 0 then Num 0
      else let e = max (binary_exponent r) (- 1022);
               u = 2 powi (e - 52);
               v = of_int (round_ties_even (r / u)) * u
           in if 2 powi 1024 \<le> \<bar>v\<bar> then signed_inf r else Num v)"

text \<open>The number a decimal literal of the source denotes.\<close>

definition literal :: "real \<Rightarrow> number" where
  "literal r = binary64 r"

subsection \<open>Operations\<close>

text \<open>The operators \<^verbatim>\<open>-\<close> (unary), \<^verbatim>\<open>+\<close>, \<^verbatim>\<open>-\<close>, \<^verbatim>\<open>*\<close> and \<^verbatim>\<open>/\<close>.\<close>

fun js_neg :: "number \<Rightarrow> number" where
  "js_neg (Num a) = Num (- a)"
| "js_neg PosInf = NegInf"
| "js_neg NegInf = PosInf"
| "js_neg NaN = NaN"

fun js_add :: "number \<Rightarrow> number \<Rightarrow> number" where
  "js_add (Num a) (Num b) = binary64 (a + b)"
| "js_add NaN _ = NaN"
| "js_add _ NaN = NaN"
| "js_add PosInf NegInf = NaN"
| "js_add NegInf PosInf = NaN"
| "js_add PosInf _ = PosInf"
| "js_add NegInf _ = NegInf"
| "js_add _ PosInf = PosInf"
| "js_add _ NegInf = NegInf"

definition js_sub :: "number \<Rightarrow> number \<Rightarrow> number" where
  "js_sub a b = js_add a (js_neg b)"

fun js_mul :: "number \<Rightarrow> number \<Rightarrow> number" where
  "js_mul (Num a) (Num b) = binary64 (a * b)"
| "js_mul NaN _ = NaN"
| "js_mul _ NaN = NaN"
| "js_mul (Num a) PosInf = (if a = 0 then NaN else signed_inf a)"
| "js_mul (Num a) NegInf = (if a = 0 then NaN else signed_inf (- a))"
| "js_mul PosInf (Num b) = (if b = 0 then NaN else signed_inf b)"
| "js_mul NegInf (Num b) = (if b = 0 then NaN else signed_inf (- b))"
| "js_mul PosInf PosInf = PosInf"
| "js_mul NegInf NegInf = PosInf"
| "js_mul PosInf NegInf = NegInf"
| "js_mul NegInf PosInf = NegInf"

fun js_div :: "number \<Rightarrow> number \<Rightarrow> number" where
  "js_div (Num a) (Num b) =
     (if b \<noteq> 0 then binary64 (a / b) else if a = 0 then NaN else signed_inf a)"
| "js_div NaN _ = NaN"
| "js_div _ NaN = NaN"
| "js_div (Num a) PosInf = Num 0"
| "js_div (Num a) NegInf = Num 0"
| "js_div PosInf (Num b) = (if 0 \<le> b then PosInf else NegInf)"
| "js_div NegInf (Num b) = (if 0 \<le> b then NegInf else PosInf)"
| "js_div PosInf PosInf = NaN"
| "js_div PosInf NegInf = NaN"
| "js_div NegInf PosInf = NaN"
| "js_div NegInf NegInf = NaN"

text \<open>
  \<^verbatim>\<open>Math.pow(b, 2)\<close> and \<^verbatim>\<open>Math.sqrt\<close>, returning the rounded square and the rounded
  square root (the square root is correctly rounded by IEEE 754; the square is, as the
  engines compute \<^verbatim>\<open>Math.pow\<close> with the exponent 2 as the product \<^verbatim>\<open>b * b\<close>);
  \<^verbatim>\<open>Math.PI\<close>, the binary64 value 3.141592653589793.
\<close>

fun Math_pow2 :: "number \<Rightarrow> number" where
  "Math_pow2 (Num a) = binary64 (a\<^sup>2)"
| "Math_pow2 PosInf = PosInf"
| "Math_pow2 NegInf = PosInf"
| "Math_pow2 NaN = NaN"

fun Math_sqrt :: "number \<Rightarrow> number" where
  "Math_sqrt (Num a) = (if a < 0 then NaN else binary64 (sqrt a))"
| "Math_sqrt PosInf = PosInf"
| "Math_sqrt NegInf = NaN"
| "Math_sqrt NaN = NaN"

definition Math_PI :: number where
  "Math_PI = Num (884279719003555 / 2 ^ 48)"

text \<open>The comparisons \<^verbatim>\<open>a < b\<close> and \<^verbatim>\<open>a > b\<close>: false as soon as one side is NaN.\<close>

fun js_lt :: "number \<Rightarrow> number \<Rightarrow> bool" where
  "js_lt (Num a) (Num b) = (a < b)"
| "js_lt NaN _ = False"
| "js_lt _ NaN = False"
| "js_lt PosInf _ = False"
| "js_lt _ NegInf = False"
| "js_lt NegInf _ = True"
| "js_lt _ PosInf = True"

definition js_gt :: "number \<Rightarrow> number \<Rightarrow> bool" where
  "js_gt a b = js_lt b a"

section \<open>Data model\<close>

datatype Tool = Pen | Sticker | Eraser | Text | NoTool

text \<open>
  The three object types of \<^verbatim>\<open>App.tsx\<close> (lines 7 to 30) share the fields
  \<^verbatim>\<open>id, x, y, width, height\<close>; each adds one field of its own (\<^verbatim>\<open>type\<close>,
  \<^verbatim>\<open>content\<close>, \<^verbatim>\<open>url\<close>). The fields \<^verbatim>\<open>id\<close> and \<^verbatim>\<open>type\<close>, and \<^verbatim>\<open>top\<close> of a
  rectangle below, are written with a prime.
\<close>

record Geometry =
  id' :: string
  x :: number
  y :: number
  width :: number
  height :: number

record StickerType = Geometry +
  type' :: string

record TextBoxType = Geometry +
  content :: string

record ImageType = Geometry +
  url :: string

definition STICKER_DEFAULT_SIZE :: number where
  "STICKER_DEFAULT_SIZE = Num 50"

definition DEFAULT_PEN_SIZE :: number where
  "DEFAULT_PEN_SIZE = Num 3"

definition DEFAULT_COLOR :: string where
  "DEFAULT_COLOR = ''#000000''"

section \<open>The 2D rendering context\<close>

text \<open>
  The context keeps the current path, the part of the drawing state the program changes
  (stroke style, line width, fill style, clipping region) with the stack of
  \<^verbatim>\<open>save\<close>/\<^verbatim>\<open>restore\<close>, and the bitmap. The bitmap is the list of the paint
  operations performed so far, in order: only \<^verbatim>\<open>stroke\<close> and \<^verbatim>\<open>fillRect\<close>
  write to it. The transform, the line cap and the line join are set once when the canvas
  is initialised and never again; they are left out.
\<close>

datatype path_op =
    MoveTo number number
  | LineTo number number
  | Arc number number number number number
  | ClosePath

type_synonym path = "path_op list"

datatype paint =
    Stroked path string number "path list"
  | FilledRect number number number number string "path list"

record drawing_state =
  strokeStyle :: string
  lineWidth :: number
  fillStyle :: string
  clipRegion :: "path list"

record context2d = drawing_state +
  currentPath :: path
  saved :: "unit drawing_state_scheme list"
  bitmap :: "paint list"

datatype error = IndexSizeError

text \<open>A handler either returns, or throws after the effects it had until then.\<close>

datatype 'a outcome = Done 'a | Threw error 'a

fun state_of :: "'a outcome \<Rightarrow> 'a" where
  "state_of (Done a) = a"
| "state_of (Threw e a) = a"

definition ctx_save :: "context2d \<Rightarrow> context2d" where
  "ctx_save c = c\<lparr>saved := drawing_state.truncate c # saved c\<rparr>"

definition ctx_restore :: "context2d \<Rightarrow> context2d" where
  "ctx_restore c =
     (case saved c of
        [] \<Rightarrow> c
      | s # rest \<Rightarrow> c\<lparr>strokeStyle := strokeStyle s, lineWidth := lineWidth s,
                      fillStyle := fillStyle s, clipRegion := clipRegion s, saved := rest\<rparr>)"

definition ctx_beginPath :: "context2d \<Rightarrow> context2d" where
  "ctx_beginPath c = c\<lparr>currentPath := []\<rparr>"

definition ctx_moveTo :: "number \<Rightarrow> number \<Rightarrow> context2d \<Rightarrow> context2d" where
  "ctx_moveTo px py c =
     (if finite_num px \<and> finite_num py then c\<lparr>currentPath := currentPath c @ [MoveTo px py]\<rparr>
      else c)"

definition ctx_lineTo :: "number \<Rightarrow> number \<Rightarrow> context2d \<Rightarrow> context2d" where
  "ctx_lineTo px py c =
     (if finite_num px \<and> finite_num py then c\<lparr>currentPath := currentPath c @ [LineTo px py]\<rparr>
      else c)"

text \<open>\<^verbatim>\<open>closePath\<close> does nothing on a path without subpaths.\<close>

definition ctx_closePath :: "context2d \<Rightarrow> context2d" where
  "ctx_closePath c =
     (if currentPath c = [] then c else c\<lparr>currentPath := currentPath c @ [ClosePath]\<rparr>)"

text \<open>
  \<^verbatim>\<open>arc\<close> ignores non-finite arguments and throws IndexSizeError on a negative radius.
\<close>

definition ctx_arc ::
  "number \<Rightarrow> number \<Rightarrow> number \<Rightarrow> number \<Rightarrow> number \<Rightarrow> context2d \<Rightarrow> context2d outcome" where
  "ctx_arc px py r a0 a1 c =
     (if \<not> (finite_num px \<and> finite_num py \<and> finite_num r \<and> finite_num a0 \<and> finite_num a1)
      then Done c
      else if js_lt r (Num 0) then Threw IndexSizeError c
      else Done (c\<lparr>currentPath := currentPath c @ [Arc px py r a0 a1]\<rparr>))"

definition ctx_clip :: "context2d \<Rightarrow> context2d" where
  "ctx_clip c = c\<lparr>clipRegion := currentPath c # clipRegion c\<rparr>"

definition ctx_stroke :: "context2d \<Rightarrow> context2d" where
  "ctx_stroke c =
     c\<lparr>bitmap := bitmap c @ [Stroked (currentPath c) (strokeStyle c) (lineWidth c) (clipRegion c)]\<rparr>"

definition ctx_fillRect ::
  "number \<Rightarrow> number \<Rightarrow> number \<Rightarrow> number \<Rightarrow> context2d \<Rightarrow> context2d" where
  "ctx_fillRect px py w h c =
     (if finite_num px \<and> finite_num py \<and> finite_num w \<and> finite_num h
      then c\<lparr>bitmap := bitmap c @ [FilledRect px py w h (fillStyle c) (clipRegion c)]\<rparr>
      else c)"

section \<open>Application state\<close>

record DOMRect =
  left :: real
  top' :: real

record MouseEvent =
  clientX :: real
  clientY :: real
  buttons :: nat

text \<open>
  The \<^verbatim>\<open>useState\<close> cells and the \<^verbatim>\<open>useRef\<close> cells of \<^verbatim>\<open>App\<close>. \<^verbatim>\<open>canvasRef\<close> holds
  the mounted canvas, given by its bounding client rectangle, or null.
\<close>

record App =
  tool :: Tool
  selectedColor :: string
  penSize :: number
  selectedSticker :: string
  showColorPicker :: bool
  showStickerPicker :: bool
  stickers :: "StickerType list"
  textBoxes :: "TextBoxType list"
  images :: "ImageType list"
  scale :: number
  isDrawing :: bool
  activeTextBox :: "string option"
  canvasRef :: "DOMRect option"
  contextRef :: "context2d option"
  lastPosition :: "(number \<times> number) option"

text \<open>The raster surface of a state: the bitmap of its context, when there is one.\<close>

definition surface :: "App \<Rightarrow> paint list option" where
  "surface a = map_option bitmap (contextRef a)"

section \<open>Tool selection and pen strokes\<close>

text \<open>
  \<^verbatim>\<open>handleToolChange\<close> (lines 120 to 133), \<^verbatim>\<open>startDrawing\<close> (136 to 153),
  \<^verbatim>\<open>draw\<close> (155 to 177) and \<^verbatim>\<open>stopDrawing\<close> (179 to 185). A handler reads the state
  of the render it was created in; the handlers are modelled on the current state.
\<close>

definition handleToolChange :: "Tool \<Rightarrow> App \<Rightarrow> App" where
  "handleToolChange newTool a =
     (let a1 = a\<lparr>tool := newTool\<rparr> in
      if newTool = Pen then a1\<lparr>showColorPicker := True, showStickerPicker := False\<rparr>
      else if newTool = Sticker then a1\<lparr>showColorPicker := False, showStickerPicker := True\<rparr>
      else a1\<lparr>showColorPicker := False, showStickerPicker := False\<rparr>)"

text \<open>The canvas-space coordinate \<^verbatim>\<open>(e.clientX - rect.left) / scale\<close>.\<close>

definition canvasX :: "MouseEvent \<Rightarrow> DOMRect \<Rightarrow> number \<Rightarrow> number" where
  "canvasX e rect sc = js_div (js_sub (Num (clientX e)) (Num (left rect))) sc"

definition canvasY :: "MouseEvent \<Rightarrow> DOMRect \<Rightarrow> number \<Rightarrow> number" where
  "canvasY e rect sc = js_div (js_sub (Num (clientY e)) (Num (top' rect))) sc"

definition startDrawing :: "MouseEvent \<Rightarrow> App \<Rightarrow> App" where
  "startDrawing e a =
     (if tool a \<noteq> Pen then a
      else case (canvasRef a, contextRef a) of
        (Some rect, Some ctx) \<Rightarrow>
          (let px = canvasX e rect (scale a);
               py = canvasY e rect (scale a)
           in a\<lparr>contextRef := Some (ctx_moveTo px py (ctx_beginPath ctx)),
                 isDrawing := True,
                 lastPosition := Some (px, py)\<rparr>)
      | _ \<Rightarrow> a)"

definition draw :: "MouseEvent \<Rightarrow> App \<Rightarrow> App" where
  "draw e a =
     (if \<not> isDrawing a \<or> tool a \<noteq> Pen \<or> contextRef a = None \<or> lastPosition a = None then a
      else case (canvasRef a, contextRef a) of
        (Some rect, Some ctx) \<Rightarrow>
          (let px = canvasX e rect (scale a);
               py = canvasY e rect (scale a)
           in a\<lparr>contextRef := Some (ctx_stroke (ctx_lineTo px py ctx)),
                 lastPosition := Some (px, py)\<rparr>)
      | _ \<Rightarrow> a)"

definition stopDrawing :: "App \<Rightarrow> App" where
  "stopDrawing a =
     a\<lparr>contextRef := map_option ctx_closePath (contextRef a),
       isDrawing := False,
       lastPosition := None\<rparr>"

section \<open>Eraser\<close>

text \<open>
  \<^verbatim>\<open>erase\<close> (lines 188 to 251). First its filter callback: the source writes the same
  body three times, for stickers, text boxes and images; it reads only the shared geometry
  fields. \<open>px\<close>, \<open>py\<close> are the canvas-space coordinates of the pointer.
\<close>

definition keeps :: "number \<Rightarrow> number \<Rightarrow> number \<Rightarrow> 'a Geometry_scheme \<Rightarrow> bool" where
  "keeps px py radius obj =
     (let centerX = js_add (x obj) (js_div (width obj) (Num 2));
          centerY = js_add (y obj) (js_div (height obj) (Num 2));
          distance = Math_sqrt (js_add (Math_pow2 (js_sub centerX px))
                                       (Math_pow2 (js_sub centerY py)))
      in js_gt distance radius)"

definition erase :: "MouseEvent \<Rightarrow> App \<Rightarrow> App outcome" where
  "erase e a =
     (if tool a \<noteq> Eraser then Done a
      else case (contextRef a, canvasRef a) of
        (Some ctx, Some rect) \<Rightarrow>
          (let px = canvasX e rect (scale a);
               py = canvasY e rect (scale a);
               radius = js_mul (penSize a) (Num 2);
               c1 = ctx_beginPath (ctx_save ctx)
           in case ctx_arc px py radius (Num 0) (js_mul Math_PI (Num 2)) c1 of
                Threw err c2 \<Rightarrow> Threw err (a\<lparr>contextRef := Some c2\<rparr>)
              | Done c2 \<Rightarrow>
                  (let c3 = (ctx_clip c2)\<lparr>fillStyle := ''white''\<rparr>;
                       c4 = ctx_fillRect (js_sub px radius) (js_sub py radius)
                              (js_mul radius (Num 2)) (js_mul radius (Num 2)) c3
                   in Done (a\<lparr>contextRef := Some (ctx_restore c4),
                               stickers := filter (keeps px py radius) (stickers a),
                               textBoxes := filter (keeps px py radius) (textBoxes a),
                               images := filter (keeps px py radius) (images a)\<rparr>)))
      | _ \<Rightarrow> Done a)"

section \<open>Object identifiers\<close>

text \<open>
  \<^verbatim>\<open>Date.now()\<close> is an integral number of milliseconds; a template literal renders it in
  decimal.
\<close>

definition digit_char :: "nat \<Rightarrow> char" where
  "digit_char d = ''0123456789'' ! d"

fun digits :: "nat \<Rightarrow> string" where
  "digits n = (if n < 10 then [digit_char n] else digits (n div 10) @ [digit_char (n mod 10)])"

declare digits.simps [simp del]

definition toString :: "int \<Rightarrow> string" where
  "toString i = (if i < 0 then CHR ''-'' # digits (nat (- i)) else digits (nat i))"

section \<open>Canvas clicks and pointer movement\<close>

text \<open>
  \<^verbatim>\<open>handleCanvasClick\<close> (lines 254 to 297); \<open>now\<close> is the value \<^verbatim>\<open>Date.now()\<close> returns
  during the handler. A string is truthy when it is not empty.
\<close>

definition handleCanvasClick :: "MouseEvent \<Rightarrow> int \<Rightarrow> App \<Rightarrow> App outcome" where
  "handleCanvasClick e now a =
     (case canvasRef a of
        None \<Rightarrow> Done a
      | Some rect \<Rightarrow>
          (let px = canvasX e rect (scale a);
               py = canvasY e rect (scale a)
           in if tool a = Sticker \<and> selectedSticker a \<noteq> [] then
                Done (a\<lparr>stickers := stickers a @
                           [\<lparr>id' = ''sticker-'' @ toString now, x = px, y = py,
                             width = STICKER_DEFAULT_SIZE, height = STICKER_DEFAULT_SIZE,
                             type' = selectedSticker a\<rparr>],
                         selectedSticker := [],
                         tool := NoTool\<rparr>)
              else if tool a = Text then
                (let newId = ''text-'' @ toString now
                 in Done (a\<lparr>textBoxes := textBoxes a @
                              [\<lparr>id' = newId, x = px, y = py,
                                width = Num 150, height = Num 50, content = []\<rparr>],
                            activeTextBox := Some newId,
                            tool := NoTool\<rparr>))
              else if tool a = Eraser then erase e a
              else Done a))"

text \<open>The \<^verbatim>\<open>onMouseMove\<close> handler of the canvas (lines 375 to 378).\<close>

definition onMouseMove :: "MouseEvent \<Rightarrow> App \<Rightarrow> App outcome" where
  "onMouseMove e a =
     (let a1 = (if isDrawing a \<and> tool a = Pen then draw e a else a)
      in if tool a = Eraser then erase e a1 else Done a1)"

text \<open>The \<^verbatim>\<open>onClick\<close> handler of an entry of the sticker picker (lines 647 to 650).\<close>

definition selectSticker :: "string \<Rightarrow> App \<Rightarrow> App" where
  "selectSticker t a = a\<lparr>selectedSticker := t, tool := Sticker\<rparr>"

section \<open>Dragging and resizing objects\<close>

text \<open>
  The callbacks given to \<^verbatim>\<open>prev.map\<close> by the \<^verbatim>\<open>onDragStop\<close> and \<^verbatim>\<open>onResizeStop\<close>
  handlers of the stickers (lines 396 to 417), the text boxes (440 to 461) and the images
  (499 to 520); again one body, written once per collection in the source. \<open>target\<close> is the
  identifier of the object the handler was rendered for.
\<close>

definition dragged :: "string \<Rightarrow> number \<Rightarrow> number \<Rightarrow> 'a Geometry_scheme \<Rightarrow> 'a Geometry_scheme" where
  "dragged target dx dy s = (if id' s = target then s\<lparr>x := dx, y := dy\<rparr> else s)"

definition onDragStop_sticker :: "string \<Rightarrow> number \<Rightarrow> number \<Rightarrow> App \<Rightarrow> App" where
  "onDragStop_sticker target dx dy a = a\<lparr>stickers := map (dragged target dx dy) (stickers a)\<rparr>"

definition onDragStop_textBox :: "string \<Rightarrow> number \<Rightarrow> number \<Rightarrow> App \<Rightarrow> App" where
  "onDragStop_textBox target dx dy a = a\<lparr>textBoxes := map (dragged target dx dy) (textBoxes a)\<rparr>"

definition onDragStop_image :: "string \<Rightarrow> number \<Rightarrow> number \<Rightarrow> App \<Rightarrow> App" where
  "onDragStop_image target dx dy a = a\<lparr>images := map (dragged target dx dy) (images a)\<rparr>"

text \<open>
  \<^verbatim>\<open>parseInt(string)\<close> without a radix: leading white space is skipped, a sign is read,
  \<^verbatim>\<open>0x\<close> selects radix 16, and the longest prefix of digits is converted and rounded to
  binary64; NaN when there is no digit. A \<open>char\<close> stands for a code unit below 256; of
  these the white space is tab, line feed, vertical tab, form feed, carriage return, space
  and the no-break space.
\<close>

definition isWhiteSpace :: "char \<Rightarrow> bool" where
  "isWhiteSpace c =
     (c \<in> set [CHR '' '', CHR 0x09, CHR 0x0A, CHR 0x0B, CHR 0x0C, CHR 0x0D, CHR 0xA0])"

definition digitValue :: "char \<Rightarrow> nat option" where
  "digitValue c =
     (let n = (of_char c :: nat) in
      if 48 \<le> n \<and> n \<le> 57 then Some (n - 48)
      else if 97 \<le> n \<and> n \<le> 122 then Some (n - 87)
      else if 65 \<le> n \<and> n \<le> 90 then Some (n - 55)
      else None)"

definition isDigit :: "nat \<Rightarrow> char \<Rightarrow> bool" where
  "isDigit radix c = (case digitValue c of None \<Rightarrow> False | Some d \<Rightarrow> d < radix)"

definition mathInt :: "nat \<Rightarrow> string \<Rightarrow> nat" where
  "mathInt radix z = foldl (\<lambda>acc c. acc * radix + (case digitValue c of None \<Rightarrow> 0 | Some d \<Rightarrow> d)) 0 z"

definition parseInt :: "string \<Rightarrow> number" where
  "parseInt s =
     (let s1 = dropWhile isWhiteSpace s;
          sign = (if take 1 s1 = ''-'' then - 1 else 1 :: int);
          s2 = (if take 1 s1 = ''-'' \<or> take 1 s1 = ''+'' then drop 1 s1 else s1);
          hex = (take 2 s2 = ''0x'' \<or> take 2 s2 = ''0X'');
          radix = (if hex then 16 else 10);
          s3 = (if hex then drop 2 s2 else s2);
          z = takeWhile (isDigit radix) s3
      in if z = [] then NaN else binary64 (of_int (sign * int (mathInt radix z))))"

definition resized ::
  "string \<Rightarrow> string \<Rightarrow> string \<Rightarrow> number \<Rightarrow> number \<Rightarrow> 'a Geometry_scheme \<Rightarrow> 'a Geometry_scheme" where
  "resized target styleWidth styleHeight posX posY s =
     (if id' s = target
      then s\<lparr>width := parseInt styleWidth, height := parseInt styleHeight, x := posX, y := posY\<rparr>
      else s)"

definition onResizeStop_sticker ::
  "string \<Rightarrow> string \<Rightarrow> string \<Rightarrow> number \<Rightarrow> number \<Rightarrow> App \<Rightarrow> App" where
  "onResizeStop_sticker target styleWidth styleHeight posX posY a =
     a\<lparr>stickers := map (resized target styleWidth styleHeight posX posY) (stickers a)\<rparr>"

definition onResizeStop_textBox ::
  "string \<Rightarrow> string \<Rightarrow> string \<Rightarrow> number \<Rightarrow> number \<Rightarrow> App \<Rightarrow> App" where
  "onResizeStop_textBox target styleWidth styleHeight posX posY a =
     a\<lparr>textBoxes := map (resized target styleWidth styleHeight posX posY) (textBoxes a)\<rparr>"

definition onResizeStop_image ::
  "string \<Rightarrow> string \<Rightarrow> string \<Rightarrow> number \<Rightarrow> number \<Rightarrow> App \<Rightarrow> App" where
  "onResizeStop_image target styleWidth styleHeight posX posY a =
     a\<lparr>images := map (resized target styleWidth styleHeight posX posY) (images a)\<rparr>"

section \<open>Pasting images\<close>

record Window =
  innerWidth :: real
  innerHeight :: real

text \<open>
  A clipboard item has its \<^verbatim>\<open>type\<close> and the result of \<^verbatim>\<open>getAsFile()\<close>: null, or a
  blob, given here by the object URL that \<^verbatim>\<open>URL.createObjectURL\<close> returns for it.
\<close>

record DataTransferItem =
  itemType :: string
  getAsFile :: "string option"

fun indexOf_from :: "nat \<Rightarrow> string \<Rightarrow> string \<Rightarrow> int" where
  "indexOf_from i [] p = (if p = [] then int i else - 1)"
| "indexOf_from i (c # cs) p =
     (if take (length p) (c # cs) = p then int i else indexOf_from (Suc i) cs p)"

definition indexOf :: "string \<Rightarrow> string \<Rightarrow> int" where
  "indexOf s p = indexOf_from 0 s p"

text \<open>
  \<^verbatim>\<open>handlePaste\<close> (lines 301 to 336) changes no state by itself: for each image item with a file it starts
  the load of a temporary image. The result is the list of the object URLs being loaded;
  \<^verbatim>\<open>img.onload\<close> runs later, once for each load that succeeds.
\<close>

definition handlePaste :: "DataTransferItem list option \<Rightarrow> string list" where
  "handlePaste clipboardData =
     (case clipboardData of
        None \<Rightarrow> []
      | Some items \<Rightarrow>
          concat (map (\<lambda>item.
            if indexOf (itemType item) ''image'' \<noteq> - 1
            then (case getAsFile item of None \<Rightarrow> [] | Some blobUrl \<Rightarrow> [blobUrl])
            else []) items))"

text \<open>
  The \<^verbatim>\<open>onload\<close> callback. \<open>sc\<close> is the \<^verbatim>\<open>scale\<close> captured by the paste listener,
  \<open>imgWidth\<close> and \<open>imgHeight\<close> the natural size of the decoded image, \<open>now\<close> the value
  of \<^verbatim>\<open>Date.now()\<close>.
\<close>

definition img_onload ::
  "number \<Rightarrow> Window \<Rightarrow> int \<Rightarrow> nat \<Rightarrow> nat \<Rightarrow> string \<Rightarrow> App \<Rightarrow> App" where
  "img_onload sc window now imgWidth imgHeight blobUrl a =
     (let aspectRatio = js_div (Num (real imgWidth)) (Num (real imgHeight));
          w = Num 300;
          h = js_div w aspectRatio
      in a\<lparr>images := images a @
             [\<lparr>id' = ''img-'' @ toString now,
               x = js_sub (js_div (js_div (Num (innerWidth window)) (Num 2)) sc)
                          (js_div w (Num 2)),
               y = js_sub (js_div (js_div (Num (innerHeight window)) (Num 2)) sc)
                          (js_div h (Num 2)),
               width = w, height = h, url = blobUrl\<rparr>]\<rparr>)"

section \<open>Zoom\<close>

datatype direction = In | Out

text \<open>\<^verbatim>\<open>handleZoom\<close> (lines 343 to 349); first the updater it gives to \<^verbatim>\<open>setScale\<close>.\<close>

definition nextScale :: "direction \<Rightarrow> number \<Rightarrow> number" where
  "nextScale dir prev =
     (if dir = In \<and> js_lt prev (literal 3) then js_add prev (literal (1 / 10))
      else if dir = Out \<and> js_gt prev (literal (5 / 10)) then js_sub prev (literal (1 / 10))
      else prev)"

definition handleZoom :: "direction \<Rightarrow> App \<Rightarrow> App" where
  "handleZoom dir a = a\<lparr>scale := nextScale dir (scale a)\<rparr>"

text \<open>A sequence of zoom requests, in order.\<close>

fun zooms :: "direction list \<Rightarrow> App \<Rightarrow> App" where
  "zooms [] a = a"
| "zooms (d # ds) a = zooms ds (handleZoom d a)"

section \<open>Style, text entry and the initial state\<close>

text \<open>
  The effect on \<^verbatim>\<open>[selectedColor, penSize]\<close> (lines 112 to 117). A canvas ignores a line
  width that is not finite and positive; the colours of the pickers are valid colours.
\<close>

definition applyStyle :: "App \<Rightarrow> App" where
  "applyStyle a =
     a\<lparr>contextRef :=
         map_option (\<lambda>c. c\<lparr>strokeStyle := selectedColor a,
                            lineWidth := (if finite_num (penSize a) \<and> js_gt (penSize a) (Num 0)
                                          then penSize a else lineWidth c)\<rparr>)
           (contextRef a)\<rparr>"

definition setSelectedColor :: "string \<Rightarrow> App \<Rightarrow> App" where
  "setSelectedColor color a = applyStyle (a\<lparr>selectedColor := color\<rparr>)"

text \<open>The \<^verbatim>\<open>onChange\<close> handler of the pen-size slider: \<^verbatim>\<open>setPenSize(parseInt(e.target.value))\<close>.\<close>

definition onPenSizeChange :: "string \<Rightarrow> App \<Rightarrow> App" where
  "onPenSizeChange v a = applyStyle (a\<lparr>penSize := parseInt v\<rparr>)"

text \<open>The \<^verbatim>\<open>onChange\<close> handler of a text box.\<close>

definition onTextChange :: "string \<Rightarrow> string \<Rightarrow> App \<Rightarrow> App" where
  "onTextChange target v a =
     a\<lparr>textBoxes := map (\<lambda>t. if id' t = target then t\<lparr>content := v\<rparr> else t) (textBoxes a)\<rparr>"

definition setActiveTextBox :: "string \<Rightarrow> App \<Rightarrow> App" where
  "setActiveTextBox target a = a\<lparr>activeTextBox := Some target\<rparr>"

text \<open>The context after the effect that initialises the canvas (lines 87 to 109).\<close>

definition initialContext :: "Window \<Rightarrow> context2d" where
  "initialContext window =
     \<lparr>strokeStyle = DEFAULT_COLOR, lineWidth = DEFAULT_PEN_SIZE, fillStyle = ''white'',
      clipRegion = [], currentPath = [], saved = [],
      bitmap = [FilledRect (Num 0) (Num 0) (js_mul (Num (innerWidth window)) (Num 2))
                  (js_mul (Num (innerHeight window)) (Num 2)) ''white'' []]\<rparr>"

text \<open>The state after the first render, with the canvas mounted at \<open>rect\<close>.\<close>

definition initialApp :: "Window \<Rightarrow> DOMRect \<Rightarrow> App" where
  "initialApp window rect =
     \<lparr>tool = NoTool, selectedColor = DEFAULT_COLOR, penSize = DEFAULT_PEN_SIZE,
      selectedSticker = [], showColorPicker = False, showStickerPicker = False,
      stickers = [], textBoxes = [], images = [], scale = Num 1, isDrawing = False,
      activeTextBox = None, canvasRef = Some rect,
      contextRef = Some (initialContext window), lastPosition = None\<rparr>"

section \<open>Events\<close>

text \<open>
  The events the handlers are registered for, with the data of the environment each handler
  reads. The application is single-threaded: the handlers run one after the other. A handler
  that throws leaves the state as it was at the throw, and later events are still handled.
\<close>

datatype event =
    MouseDown MouseEvent
  | MouseMove MouseEvent
  | MouseUp
  | MouseLeave
  | Click MouseEvent int
  | ToolButton Tool
  | PickSticker string
  | PickColor string
  | PenSizeInput string
  | ZoomButton direction
  | ImageLoaded number Window int nat nat string
  | DragStopSticker string number number
  | DragStopTextBox string number number
  | DragStopImage string number number
  | ResizeStopSticker string string string number number
  | ResizeStopTextBox string string string number number
  | ResizeStopImage string string string number number
  | TextInput string string
  | TextBoxClick string

fun step :: "event \<Rightarrow> App \<Rightarrow> App outcome" where
  "step (MouseDown e) a = Done (startDrawing e a)"
| "step (MouseMove e) a = onMouseMove e a"
| "step MouseUp a = Done (stopDrawing a)"
| "step MouseLeave a = Done (stopDrawing a)"
| "step (Click e now) a = handleCanvasClick e now a"
| "step (ToolButton t) a = Done (handleToolChange t a)"
| "step (PickSticker t) a = Done (selectSticker t a)"
| "step (PickColor c) a = Done (setSelectedColor c a)"
| "step (PenSizeInput v) a = Done (onPenSizeChange v a)"
| "step (ZoomButton d) a = Done (handleZoom d a)"
| "step (ImageLoaded sc window now w h u) a = Done (img_onload sc window now w h u a)"
| "step (DragStopSticker t dx dy) a = Done (onDragStop_sticker t dx dy a)"
| "step (DragStopTextBox t dx dy) a = Done (onDragStop_textBox t dx dy a)"
| "step (DragStopImage t dx dy) a = Done (onDragStop_image t dx dy a)"
| "step (ResizeStopSticker t w h px py) a = Done (onResizeStop_sticker t w h px py a)"
| "step (ResizeStopTextBox t w h px py) a = Done (onResizeStop_textBox t w h px py a)"
| "step (ResizeStopImage t w h px py) a = Done (onResizeStop_image t w h px py a)"
| "step (TextInput t v) a = Done (onTextChange t v a)"
| "step (TextBoxClick t) a = Done (setActiveTextBox t a)"

fun run :: "event list \<Rightarrow> App \<Rightarrow> App" where
  "run [] a = a"
| "run (ev # evs) a = run evs (state_of (step ev a))"

section \<open>The properties, in the words of the specification\<close>

text \<open>
  The centre of an object with finite geometry, the Euclidean distance, and the survival
  test as the specification states it: an object survives an eraser application at \<open>c\<close>
  with radius \<open>r\<close> iff its centre is strictly farther than \<open>r\<close> from \<open>c\<close>.
\<close>

definition euclideanDistance :: "real \<times> real \<Rightarrow> real \<times> real \<Rightarrow> real" where
  "euclideanDistance p q = sqrt ((fst p - fst q)\<^sup>2 + (snd p - snd q)\<^sup>2)"

definition center :: "'a Geometry_scheme \<Rightarrow> (real \<times> real) option" where
  "center obj =
     (case (x obj, y obj, width obj, height obj) of
        (Num ox, Num oy, Num w, Num h) \<Rightarrow> Some (ox + w / 2, oy + h / 2)
      | _ \<Rightarrow> None)"

definition survives :: "real \<times> real \<Rightarrow> real \<Rightarrow> 'a Geometry_scheme \<Rightarrow> bool" where
  "survives c r obj =
     (case center obj of Some p \<Rightarrow> r < euclideanDistance p c | None \<Rightarrow> False)"

text \<open>
  The same test with the centre and the distance computed in binary64, each operation
  rounded.
\<close>

definition center64 :: "'a Geometry_scheme \<Rightarrow> number \<times> number" where
  "center64 obj =
     (js_add (x obj) (js_div (width obj) (Num 2)), js_add (y obj) (js_div (height obj) (Num 2)))"

definition distance64 :: "number \<times> number \<Rightarrow> number \<times> number \<Rightarrow> number" where
  "distance64 p q =
     Math_sqrt (js_add (Math_pow2 (js_sub (fst p) (fst q))) (Math_pow2 (js_sub (snd p) (snd q))))"

definition survives64 :: "number \<times> number \<Rightarrow> number \<Rightarrow> 'a Geometry_scheme \<Rightarrow> bool" where
  "survives64 c r obj = js_gt (distance64 (center64 obj) c) r"

text \<open>
  The size and the position of a pasted image: the display width is 300, the display
  height keeps the aspect ratio, and the image is centred in the viewport; every quotient
  and difference is a binary64 result.
\<close>

definition displayWidth :: number where
  "displayWidth = Num 300"

definition displayHeight :: "nat \<Rightarrow> nat \<Rightarrow> number" where
  "displayHeight naturalWidth naturalHeight =
     js_div displayWidth (js_div (Num (real naturalWidth)) (Num (real naturalHeight)))"

definition centred :: "real \<Rightarrow> number \<Rightarrow> number \<Rightarrow> number" where
  "centred extent zoom len =
     js_sub (js_div (js_div (Num extent) (Num 2)) zoom) (js_div len (Num 2))"






section \<open>A board for the scenarios of the specification\<close>

text \<open>
  A viewport of 1000 by 800 with the canvas at its origin; one heart sticker placed at
  \<open>(100, 100)\<close>, hence with centre \<open>(125, 125)\<close>; then the eraser selected after the pen
  size was set to 15, so that the erase radius is 30.
\<close>

definition exampleWindow :: Window where
  "exampleWindow = \<lparr>innerWidth = 1000, innerHeight = 800\<rparr>"

definition exampleRect :: DOMRect where
  "exampleRect = \<lparr>left = 0, top' = 0\<rparr>"

definition stickerBoard :: App where
  "stickerBoard =
     run [ToolButton Sticker, PickSticker ''fas fa-heart'',
          Click \<lparr>clientX = 100, clientY = 100, buttons = 0\<rparr> 1700000000000]
       (initialApp exampleWindow exampleRect)"

definition eraserBoard :: App where
  "eraserBoard = run [ToolButton Pen, PenSizeInput ''15'', ToolButton Eraser] stickerBoard"

text \<open>
  A pen stroke in progress on the empty board, from \<open>(10, 10)\<close> to \<open>(20, 20)\<close>, and the same
  with the tool switched to the eraser before the pointer is released.
\<close>

definition strokeBoard :: App where
  "strokeBoard =
     run [ToolButton Pen, MouseDown \<lparr>clientX = 10, clientY = 10, buttons = 1\<rparr>,
          MouseMove \<lparr>clientX = 20, clientY = 20, buttons = 1\<rparr>]
       (initialApp exampleWindow exampleRect)"

definition switchedBoard :: App where
  "switchedBoard = run [ToolButton Eraser] strokeBoard"

text \<open>
  One paste of a clipboard that holds the same picture in two formats, with both loads
  completing within the same millisecond.
\<close>

definition pastedItems :: "DataTransferItem list" where
  "pastedItems =
     [\<lparr>itemType = ''image/png'', getAsFile = Some ''blob:1''\<rparr>,
      \<lparr>itemType = ''text/html'', getAsFile = None\<rparr>,
      \<lparr>itemType = ''image/bmp'', getAsFile = Some ''blob:2''\<rparr>]"

definition pasteLoads :: "event list" where
  "pasteLoads =
     map (\<lambda>blobUrl. ImageLoaded (Num 1) exampleWindow 1700000000000 600 400 blobUrl)
       (handlePaste (Some pastedItems))"

text \<open>
  A board zoomed in four times, with a sticker placed by a click at \<open>(45, 40)\<close> and the
  eraser selected with pen size 15; and a board zoomed out six times, with a sticker
  placed by a click at \<open>(100, 100)\<close> and the eraser selected with pen size 5.
\<close>

definition zoomedInBoard :: App where
  "zoomedInBoard =
     run [ZoomButton In, ZoomButton In, ZoomButton In, ZoomButton In,
          ToolButton Sticker, PickSticker ''fas fa-heart'',
          Click \<lparr>clientX = 45, clientY = 40, buttons = 0\<rparr> 1700000000000,
          ToolButton Pen, PenSizeInput ''15'', ToolButton Eraser]
       (initialApp exampleWindow exampleRect)"

definition zoomedOutBoard :: App where
  "zoomedOutBoard =
     run [ZoomButton Out, ZoomButton Out, ZoomButton Out, ZoomButton Out, ZoomButton Out,
          ZoomButton Out,
          ToolButton Sticker, PickSticker ''fas fa-heart'',
          Click \<lparr>clientX = 100, clientY = 100, buttons = 0\<rparr> 1700000000000,
          ToolButton Pen, PenSizeInput ''5'', ToolButton Eraser]
       (initialApp exampleWindow exampleRect)"

section \<open>Rounding to binary64\<close>

lemma exponent_unique:
  fixes a :: real
  assumes "2 powi e \<le> a" "a < 2 powi (e + 1)" "2 powi e' \<le> a" "a < 2 powi (e' + 1)"
  shows "e = e'"
proof -
  have "(2::real) powi e < 2 powi (e' + 1)" using assms by linarith
  then have 1: "e < e' + 1"
    by (metis linorder_not_less one_le_numeral power_int_increasing)
  have "(2::real) powi e' < 2 powi (e + 1)" using assms by linarith
  then have 2: "e' < e + 1"
    by (metis linorder_not_less one_le_numeral power_int_increasing)
  from 1 2 show ?thesis by linarith
qed

lemma binary_exponent_bounds:
  assumes "r \<noteq> 0"
  shows "2 powi binary_exponent r \<le> \<bar>r\<bar> \<and> \<bar>r\<bar> < 2 powi (binary_exponent r + 1)"
proof (cases "1 \<le> \<bar>r\<bar>")
  case True
  define n where "n = \<lfloor>\<bar>r\<bar>\<rfloor>"
  have n: "0 < n" using True by (simp add: n_def)
  from bitlen_bounds[OF n] have b: "2 ^ nat (bitlen n - 1) \<le> n" "n < 2 ^ nat (bitlen n)" by auto
  have k: "0 < bitlen n" using n b(2) by (cases "0 < bitlen n") auto
  have e: "binary_exponent r = bitlen n - 1" using True by (simp add: binary_exponent_def n_def)
  have "real_of_int (2 ^ nat (bitlen n - 1)) \<le> real_of_int n" using b(1) by linarith
  moreover have "real_of_int n \<le> \<bar>r\<bar>" by (simp add: n_def)
  moreover have "real_of_int (2 ^ nat (bitlen n - 1)) = 2 ^ nat (bitlen n - 1)" by simp
  ultimately have lo: "(2::real) ^ nat (bitlen n - 1) \<le> \<bar>r\<bar>" by linarith
  have "n + 1 \<le> 2 ^ nat (bitlen n)" using b(2) by simp
  then have "real_of_int (n + 1) \<le> real_of_int (2 ^ nat (bitlen n))" by linarith
  moreover have "\<bar>r\<bar> < real_of_int (n + 1)" unfolding n_def by linarith
  moreover have "real_of_int (2 ^ nat (bitlen n)) = 2 ^ nat (bitlen n)" by simp
  ultimately have hi: "\<bar>r\<bar> < (2::real) ^ nat (bitlen n)" by linarith
  have p1: "(2::real) powi (bitlen n - 1) = 2 ^ nat (bitlen n - 1)"
    using k by (simp add: power_int_def)
  have p2: "(2::real) powi (bitlen n - 1 + 1) = 2 ^ nat (bitlen n)"
    using k by (simp add: power_int_def)
  show ?thesis unfolding e p1 p2 using lo hi by simp
next
  case False
  define yy where "yy = 1 / \<bar>r\<bar>"
  define m where "m = \<lceil>yy\<rceil> - 1"
  have r: "0 < \<bar>r\<bar>" "\<bar>r\<bar> < 1" using assms False by auto
  have yy1: "1 < yy" using r by (simp add: yy_def)
  have m: "0 < m" using yy1 unfolding m_def by linarith
  have my: "real_of_int m < yy" "yy \<le> real_of_int m + 1" unfolding m_def by linarith+
  from bitlen_bounds[OF m] have b: "2 ^ nat (bitlen m - 1) \<le> m" "m < 2 ^ nat (bitlen m)" by auto
  have k: "0 < bitlen m" using m b(2) by (cases "0 < bitlen m") auto
  have e: "binary_exponent r = - bitlen m" using False by (simp add: binary_exponent_def m_def yy_def)
  have "m + 1 \<le> 2 ^ nat (bitlen m)" using b(2) by simp
  then have "real_of_int (m + 1) \<le> real_of_int (2 ^ nat (bitlen m))" by linarith
  moreover have "real_of_int (2 ^ nat (bitlen m)) = 2 ^ nat (bitlen m)" by simp
  ultimately have hi: "yy \<le> 2 ^ nat (bitlen m)" using my(2) by linarith
  have "real_of_int (2 ^ nat (bitlen m - 1)) \<le> real_of_int m" using b(1) by linarith
  moreover have "real_of_int (2 ^ nat (bitlen m - 1)) = 2 ^ nat (bitlen m - 1)" by simp
  ultimately have lo: "2 ^ nat (bitlen m - 1) < yy" using my(1) by linarith
  have ry: "\<bar>r\<bar> = 1 / yy" by (simp add: yy_def)
  have p1: "(2::real) powi (- bitlen m) = 1 / 2 ^ nat (bitlen m)"
    using k by (simp add: power_int_def field_simps)
  have p2: "(2::real) powi (- bitlen m + 1) = 1 / 2 ^ nat (bitlen m - 1)"
    using k by (simp add: power_int_def field_simps nat_diff_distrib)
  have "1 / 2 ^ nat (bitlen m) \<le> 1 / yy" using hi yy1 by (simp add: frac_le)
  moreover have "1 / yy < 1 / 2 ^ nat (bitlen m - 1)" using lo by (simp add: frac_less2)
  ultimately show ?thesis unfolding e p1 p2 ry by simp
qed

lemma binary_exponent_eqI:
  assumes "2 powi e \<le> \<bar>r\<bar>" "\<bar>r\<bar> < 2 powi (e + 1)"
  shows "binary_exponent r = e"
proof -
  have "(0::real) < 2 powi e" by (simp add: zero_less_power_int)
  then have "0 < \<bar>r\<bar>" using assms(1) by linarith
  then have "r \<noteq> 0" by auto
  from binary_exponent_bounds[OF this] assms show ?thesis
    using exponent_unique by blast
qed

lemma round_ties_even_eqI:
  assumes "\<bar>r - of_int n\<bar> < 1 / 2 \<or> (\<bar>r - of_int n\<bar> = 1 / 2 \<and> even n)"
  shows "round_ties_even r = n"
proof -
  consider "\<lfloor>r\<rfloor> = n" | "\<lfloor>r\<rfloor> = n - 1" using assms by linarith
  then show ?thesis
  proof cases
    case 1
    then show ?thesis using assms unfolding round_ties_even_def Let_def
      by (auto simp: abs_if split: if_splits)
  next
    case 2
    then show ?thesis using assms unfolding round_ties_even_def Let_def
      by (auto simp: abs_if split: if_splits)
  qed
qed

lemma binary64_eqI:
  assumes "2 powi e \<le> \<bar>r\<bar>" "\<bar>r\<bar> < 2 powi (e + 1)" "- 1022 \<le> e"
    and "\<bar>r / 2 powi (e - 52) - of_int n\<bar> < 1 / 2
         \<or> (\<bar>r / 2 powi (e - 52) - of_int n\<bar> = 1 / 2 \<and> even n)"
    and "\<bar>real_of_int n * 2 powi (e - 52)\<bar> < 2 powi 1024"
  shows "binary64 r = Num (of_int n * 2 powi (e - 52))"
proof -
  have "(0::real) < 2 powi e" by (simp add: zero_less_power_int)
  then have "0 < \<bar>r\<bar>" using assms(1) by linarith
  then have r: "r \<noteq> 0" by auto
  have e: "max (binary_exponent r) (- 1022) = e"
    using binary_exponent_eqI[OF assms(1,2)] assms(3) by simp
  have n: "round_ties_even (r / 2 powi (e - 52)) = n"
    using round_ties_even_eqI[OF assms(4)] .
  show ?thesis unfolding binary64_def Let_def e n using r assms(5) by simp
qed



lemma binary64_of_int:
  assumes "\<bar>m\<bar> < 2 ^ 53"
  shows "binary64 (of_int m) = Num (of_int m)"
proof (cases "m = 0")
  case True
  then show ?thesis by (simp add: binary64_def)
next
  case False
  define b where "b = bitlen \<bar>m\<bar>"
  have pos: "0 < \<bar>m\<bar>" using False by simp
  from bitlen_bounds[OF pos] have bb: "2 ^ nat (b - 1) \<le> \<bar>m\<bar>" "\<bar>m\<bar> < 2 ^ nat b"
    by (auto simp: b_def)
  have b1: "1 \<le> b" using pos bb(2) by (cases "0 < b") auto
  have "(2::int) ^ nat (b - 1) < 2 ^ 53" using bb(1) assms by linarith
  then have "nat (b - 1) < 53" using power_less_imp_less_exp[of 2 "nat (b - 1)" 53] by simp
  then have b53: "b \<le> 53" by linarith
  define e where "e = b - 1"
  define k where "k = nat (52 - e)"
  define n where "n = m * 2 ^ k"
  have e0: "0 \<le> e" "e \<le> 52" using b1 b53 by (simp_all add: e_def)
  have pe: "(2::real) powi e = 2 ^ nat e" using e0 by (simp add: power_int_def)
  have pe1: "(2::real) powi (e + 1) = 2 ^ nat b" using e0 b1 by (simp add: power_int_def e_def)
  have pu: "(2::real) powi (e - 52) = 1 / 2 ^ k"
    using e0 by (simp add: power_int_def k_def field_simps)
  have ne: "nat e = nat (b - 1)" by (simp add: e_def)
  have "real_of_int (2 ^ nat (b - 1)) \<le> real_of_int \<bar>m\<bar>" using bb(1) by linarith
  then have c1: "2 powi e \<le> \<bar>real_of_int m\<bar>" unfolding pe ne by simp
  have "real_of_int \<bar>m\<bar> < real_of_int (2 ^ nat b)" using bb(2) by linarith
  then have c2: "\<bar>real_of_int m\<bar> < 2 powi (e + 1)" unfolding pe1 by simp
  have c3: "- 1022 \<le> e" using e0 by simp
  have q: "real_of_int m / 2 powi (e - 52) = real_of_int n" unfolding pu n_def by simp
  have c4: "\<bar>real_of_int m / 2 powi (e - 52) - real_of_int n\<bar> < 1 / 2
      \<or> (\<bar>real_of_int m / 2 powi (e - 52) - real_of_int n\<bar> = 1 / 2 \<and> even n)"
    unfolding q by simp
  have v: "real_of_int n * 2 powi (e - 52) = real_of_int m" unfolding pu n_def by simp
  have "real_of_int \<bar>m\<bar> < real_of_int (2 ^ 53)" using assms by linarith
  then have "\<bar>real_of_int m\<bar> < 2 ^ 53" by simp
  also have "(2::real) ^ 53 < 2 powi 1024" by simp
  finally have c5: "\<bar>real_of_int n * 2 powi (e - 52)\<bar> < 2 powi 1024" unfolding v .
  show ?thesis using binary64_eqI[OF c1 c2 c3 c4 c5] unfolding v .
qed

lemma binary64_zero [simp]: "binary64 0 = Num 0"
  by (simp add: binary64_def)

lemma binary64_one [simp]: "binary64 1 = Num 1"
  using binary64_of_int[of 1] by simp

lemma binary64_numeral [simp]:
  "(numeral k :: int) < 9007199254740992 \<Longrightarrow> binary64 (numeral k) = Num (numeral k)"
  using binary64_of_int[of "numeral k"] by simp

lemma binary64_neg_numeral [simp]:
  "(numeral k :: int) < 9007199254740992 \<Longrightarrow> binary64 (- numeral k) = Num (- numeral k)"
  using binary64_of_int[of "- numeral k"] by simp

lemma binary64_of_nat: "n < 2 ^ 53 \<Longrightarrow> binary64 (real n) = Num (real n)"
  using binary64_of_int[of "int n"] by simp




lemma binary64_sqrt_eqI:
  assumes "0 \<le> a" "(2 powi e)\<^sup>2 \<le> a" "a < (2 powi (e + 1))\<^sup>2" "- 1022 \<le> e"
    and "0 < n" "((real_of_int n - 1 / 2) * 2 powi (e - 52))\<^sup>2 < a"
    and "a < ((real_of_int n + 1 / 2) * 2 powi (e - 52))\<^sup>2"
    and "real_of_int n * 2 powi (e - 52) < 2 powi 1024"
  shows "binary64 (sqrt a) = Num (real_of_int n * 2 powi (e - 52))"
proof -
  have p: "\<And>k. (0::real) < 2 powi k" by (simp add: zero_less_power_int)
  have c1: "2 powi e \<le> \<bar>sqrt a\<bar>"
    using assms(1,2) p[of e] by (simp add: real_le_rsqrt)
  have c2: "\<bar>sqrt a\<bar> < 2 powi (e + 1)"
    using assms(1,3) p[of "e + 1"] by (simp add: real_less_lsqrt)
  define u where "u = (2::real) powi (e - 52)"
  have upos: "0 < u" unfolding u_def by (rule p)
  have npos: "0 \<le> (real_of_int n - 1 / 2) * u" using assms(5) upos by simp
  have lo: "(real_of_int n - 1 / 2) * u < sqrt a"
    using assms(6) unfolding u_def[symmetric] by (rule real_less_rsqrt)
  have hi: "sqrt a < (real_of_int n + 1 / 2) * u"
    using assms(7) assms(5) upos unfolding u_def[symmetric]
    by (intro real_less_lsqrt) simp_all
  have "real_of_int n - 1 / 2 < sqrt a / u" using lo upos by (simp add: pos_less_divide_eq)
  moreover have "sqrt a / u < real_of_int n + 1 / 2" using hi upos by (simp add: pos_divide_less_eq)
  ultimately have c4: "\<bar>sqrt a / 2 powi (e - 52) - real_of_int n\<bar> < 1 / 2
      \<or> (\<bar>sqrt a / 2 powi (e - 52) - real_of_int n\<bar> = 1 / 2 \<and> even n)"
    unfolding u_def by linarith
  have c5: "\<bar>real_of_int n * 2 powi (e - 52)\<bar> < 2 powi 1024"
    using assms(8,5) p[of "e - 52"] by (simp add: abs_mult)
  show ?thesis using binary64_eqI[OF c1 c2 assms(4) c4 c5] .
qed

section \<open>Zoom steps\<close>

lemma literal_tenth: "literal (1 / 10) = Num (3602879701896397 / 2 ^ 55)"
  unfolding literal_def
  using binary64_eqI[of "- 4" "1 / 10" 7205759403792794] by (simp add: power_int_minus)

lemma literal_half: "literal (5 / 10) = Num (1 / 2)"
  unfolding literal_def
  using binary64_eqI[of "- 1" "5 / 10" 4503599627370496] by (simp add: power_int_minus)

lemma literal_half_reduced: "literal (1 / 2) = Num (1 / 2)"
  using literal_half by simp

lemma literal_three: "literal 3 = Num 3"
  unfolding literal_def
  using binary64_eqI[of 1 3 6755399441055744] by (simp add: power_int_minus)

lemma zoom_out_1: "nextScale Out (Num (1)) = Num (8106479329266893 / 2 ^ 53)"
proof -
  have "binary64 (1 - 3602879701896397 / 2 ^ 55) = Num (8106479329266893 / 2 ^ 53)"
    using binary64_eqI[of "- 1" "1 - 3602879701896397 / 2 ^ 55" 8106479329266893]
    by (simp add: power_int_minus)
  then show ?thesis
    by (simp add: nextScale_def literal_tenth literal_half_reduced literal_three js_sub_def js_gt_def)
qed

lemma zoom_out_2: "nextScale Out (Num (8106479329266893 / 2 ^ 53)) = Num (3602879701896397 / 2 ^ 52)"
proof -
  have "binary64 (8106479329266893 / 2 ^ 53 - 3602879701896397 / 2 ^ 55) = Num (3602879701896397 / 2 ^ 52)"
    using binary64_eqI[of "- 1" "8106479329266893 / 2 ^ 53 - 3602879701896397 / 2 ^ 55" 7205759403792794]
    by (simp add: power_int_minus)
  then show ?thesis
    by (simp add: nextScale_def literal_tenth literal_half_reduced literal_three js_sub_def js_gt_def)
qed

lemma zoom_out_3: "nextScale Out (Num (3602879701896397 / 2 ^ 52)) = Num (6305039478318695 / 2 ^ 53)"
proof -
  have "binary64 (3602879701896397 / 2 ^ 52 - 3602879701896397 / 2 ^ 55) = Num (6305039478318695 / 2 ^ 53)"
    using binary64_eqI[of "- 1" "3602879701896397 / 2 ^ 52 - 3602879701896397 / 2 ^ 55" 6305039478318695]
    by (simp add: power_int_minus)
  then show ?thesis
    by (simp add: nextScale_def literal_tenth literal_half_reduced literal_three js_sub_def js_gt_def)
qed

lemma zoom_out_4: "nextScale Out (Num (6305039478318695 / 2 ^ 53)) = Num (1351079888211149 / 2 ^ 51)"
proof -
  have "binary64 (6305039478318695 / 2 ^ 53 - 3602879701896397 / 2 ^ 55) = Num (1351079888211149 / 2 ^ 51)"
    using binary64_eqI[of "- 1" "6305039478318695 / 2 ^ 53 - 3602879701896397 / 2 ^ 55" 5404319552844596]
    by (simp add: power_int_minus)
  then show ?thesis
    by (simp add: nextScale_def literal_tenth literal_half_reduced literal_three js_sub_def js_gt_def)
qed

lemma zoom_out_5: "nextScale Out (Num (1351079888211149 / 2 ^ 51)) = Num (4503599627370497 / 2 ^ 53)"
proof -
  have "binary64 (1351079888211149 / 2 ^ 51 - 3602879701896397 / 2 ^ 55) = Num (4503599627370497 / 2 ^ 53)"
    using binary64_eqI[of "- 1" "1351079888211149 / 2 ^ 51 - 3602879701896397 / 2 ^ 55" 4503599627370497]
    by (simp add: power_int_minus)
  then show ?thesis
    by (simp add: nextScale_def literal_tenth literal_half_reduced literal_three js_sub_def js_gt_def)
qed

lemma zoom_out_6: "nextScale Out (Num (4503599627370497 / 2 ^ 53)) = Num (1801439850948199 / 2 ^ 52)"
proof -
  have "binary64 (4503599627370497 / 2 ^ 53 - 3602879701896397 / 2 ^ 55) = Num (1801439850948199 / 2 ^ 52)"
    using binary64_eqI[of "- 2" "4503599627370497 / 2 ^ 53 - 3602879701896397 / 2 ^ 55" 7205759403792796]
    by (simp add: power_int_minus)
  then show ?thesis
    by (simp add: nextScale_def literal_tenth literal_half_reduced literal_three js_sub_def js_gt_def)
qed

lemma zoom_in_1: "nextScale In (Num (1)) = Num (2476979795053773 / 2 ^ 51)"
proof -
  have "binary64 (1 + 3602879701896397 / 2 ^ 55) = Num (2476979795053773 / 2 ^ 51)"
    using binary64_eqI[of "0" "1 + 3602879701896397 / 2 ^ 55" 4953959590107546]
    by (simp add: power_int_minus)
  then show ?thesis
    by (simp add: nextScale_def literal_tenth literal_three)
qed

lemma zoom_in_2: "nextScale In (Num (2476979795053773 / 2 ^ 51)) = Num (1351079888211149 / 2 ^ 50)"
proof -
  have "binary64 (2476979795053773 / 2 ^ 51 + 3602879701896397 / 2 ^ 55) = Num (1351079888211149 / 2 ^ 50)"
    using binary64_eqI[of "0" "2476979795053773 / 2 ^ 51 + 3602879701896397 / 2 ^ 55" 5404319552844596]
    by (simp add: power_int_minus)
  then show ?thesis
    by (simp add: nextScale_def literal_tenth literal_three)
qed

lemma zoom_in_3: "nextScale In (Num (1351079888211149 / 2 ^ 50)) = Num (2927339757790823 / 2 ^ 51)"
proof -
  have "binary64 (1351079888211149 / 2 ^ 50 + 3602879701896397 / 2 ^ 55) = Num (2927339757790823 / 2 ^ 51)"
    using binary64_eqI[of "0" "1351079888211149 / 2 ^ 50 + 3602879701896397 / 2 ^ 55" 5854679515581646]
    by (simp add: power_int_minus)
  then show ?thesis
    by (simp add: nextScale_def literal_tenth literal_three)
qed

lemma zoom_in_4: "nextScale In (Num (2927339757790823 / 2 ^ 51)) = Num (788129934789837 / 2 ^ 49)"
proof -
  have "binary64 (2927339757790823 / 2 ^ 51 + 3602879701896397 / 2 ^ 55) = Num (788129934789837 / 2 ^ 49)"
    using binary64_eqI[of "0" "2927339757790823 / 2 ^ 51 + 3602879701896397 / 2 ^ 55" 6305039478318696]
    by (simp add: power_int_minus)
  then show ?thesis
    by (simp add: nextScale_def literal_tenth literal_three)
qed

lemma zoom_in_5: "nextScale In (Num (788129934789837 / 2 ^ 49)) = Num (3377699720527873 / 2 ^ 51)"
proof -
  have "binary64 (788129934789837 / 2 ^ 49 + 3602879701896397 / 2 ^ 55) = Num (3377699720527873 / 2 ^ 51)"
    using binary64_eqI[of "0" "788129934789837 / 2 ^ 49 + 3602879701896397 / 2 ^ 55" 6755399441055746]
    by (simp add: power_int_minus)
  then show ?thesis
    by (simp add: nextScale_def literal_tenth literal_three)
qed

lemma zoom_in_6: "nextScale In (Num (3377699720527873 / 2 ^ 51)) = Num (1801439850948199 / 2 ^ 50)"
proof -
  have "binary64 (3377699720527873 / 2 ^ 51 + 3602879701896397 / 2 ^ 55) = Num (1801439850948199 / 2 ^ 50)"
    using binary64_eqI[of "0" "3377699720527873 / 2 ^ 51 + 3602879701896397 / 2 ^ 55" 7205759403792796]
    by (simp add: power_int_minus)
  then show ?thesis
    by (simp add: nextScale_def literal_tenth literal_three)
qed

lemma zoom_in_7: "nextScale In (Num (1801439850948199 / 2 ^ 50)) = Num (3828059683264923 / 2 ^ 51)"
proof -
  have "binary64 (1801439850948199 / 2 ^ 50 + 3602879701896397 / 2 ^ 55) = Num (3828059683264923 / 2 ^ 51)"
    using binary64_eqI[of "0" "1801439850948199 / 2 ^ 50 + 3602879701896397 / 2 ^ 55" 7656119366529846]
    by (simp add: power_int_minus)
  then show ?thesis
    by (simp add: nextScale_def literal_tenth literal_three)
qed

lemma zoom_in_8: "nextScale In (Num (3828059683264923 / 2 ^ 51)) = Num (506654958079181 / 2 ^ 48)"
proof -
  have "binary64 (3828059683264923 / 2 ^ 51 + 3602879701896397 / 2 ^ 55) = Num (506654958079181 / 2 ^ 48)"
    using binary64_eqI[of "0" "3828059683264923 / 2 ^ 51 + 3602879701896397 / 2 ^ 55" 8106479329266896]
    by (simp add: power_int_minus)
  then show ?thesis
    by (simp add: nextScale_def literal_tenth literal_three)
qed

lemma zoom_in_9: "nextScale In (Num (506654958079181 / 2 ^ 48)) = Num (4278419646001973 / 2 ^ 51)"
proof -
  have "binary64 (506654958079181 / 2 ^ 48 + 3602879701896397 / 2 ^ 55) = Num (4278419646001973 / 2 ^ 51)"
    using binary64_eqI[of "0" "506654958079181 / 2 ^ 48 + 3602879701896397 / 2 ^ 55" 8556839292003946]
    by (simp add: power_int_minus)
  then show ?thesis
    by (simp add: nextScale_def literal_tenth literal_three)
qed

lemma zoom_in_10: "nextScale In (Num (4278419646001973 / 2 ^ 51)) = Num (2251799813685249 / 2 ^ 50)"
proof -
  have "binary64 (4278419646001973 / 2 ^ 51 + 3602879701896397 / 2 ^ 55) = Num (2251799813685249 / 2 ^ 50)"
    using binary64_eqI[of "1" "4278419646001973 / 2 ^ 51 + 3602879701896397 / 2 ^ 55" 4503599627370498]
    by (simp add: power_int_minus)
  then show ?thesis
    by (simp add: nextScale_def literal_tenth literal_three)
qed

lemma zoom_in_11: "nextScale In (Num (2251799813685249 / 2 ^ 50)) = Num (4728779608739023 / 2 ^ 51)"
proof -
  have "binary64 (2251799813685249 / 2 ^ 50 + 3602879701896397 / 2 ^ 55) = Num (4728779608739023 / 2 ^ 51)"
    using binary64_eqI[of "1" "2251799813685249 / 2 ^ 50 + 3602879701896397 / 2 ^ 55" 4728779608739023]
    by (simp add: power_int_minus)
  then show ?thesis
    by (simp add: nextScale_def literal_tenth literal_three)
qed

lemma zoom_in_12: "nextScale In (Num (4728779608739023 / 2 ^ 51)) = Num (1238489897526887 / 2 ^ 49)"
proof -
  have "binary64 (4728779608739023 / 2 ^ 51 + 3602879701896397 / 2 ^ 55) = Num (1238489897526887 / 2 ^ 49)"
    using binary64_eqI[of "1" "4728779608739023 / 2 ^ 51 + 3602879701896397 / 2 ^ 55" 4953959590107548]
    by (simp add: power_int_minus)
  then show ?thesis
    by (simp add: nextScale_def literal_tenth literal_three)
qed

lemma zoom_in_13: "nextScale In (Num (1238489897526887 / 2 ^ 49)) = Num (5179139571476073 / 2 ^ 51)"
proof -
  have "binary64 (1238489897526887 / 2 ^ 49 + 3602879701896397 / 2 ^ 55) = Num (5179139571476073 / 2 ^ 51)"
    using binary64_eqI[of "1" "1238489897526887 / 2 ^ 49 + 3602879701896397 / 2 ^ 55" 5179139571476073]
    by (simp add: power_int_minus)
  then show ?thesis
    by (simp add: nextScale_def literal_tenth literal_three)
qed

lemma zoom_in_14: "nextScale In (Num (5179139571476073 / 2 ^ 51)) = Num (2702159776422299 / 2 ^ 50)"
proof -
  have "binary64 (5179139571476073 / 2 ^ 51 + 3602879701896397 / 2 ^ 55) = Num (2702159776422299 / 2 ^ 50)"
    using binary64_eqI[of "1" "5179139571476073 / 2 ^ 51 + 3602879701896397 / 2 ^ 55" 5404319552844598]
    by (simp add: power_int_minus)
  then show ?thesis
    by (simp add: nextScale_def literal_tenth literal_three)
qed

lemma zoom_in_15: "nextScale In (Num (2702159776422299 / 2 ^ 50)) = Num (5629499534213123 / 2 ^ 51)"
proof -
  have "binary64 (2702159776422299 / 2 ^ 50 + 3602879701896397 / 2 ^ 55) = Num (5629499534213123 / 2 ^ 51)"
    using binary64_eqI[of "1" "2702159776422299 / 2 ^ 50 + 3602879701896397 / 2 ^ 55" 5629499534213123]
    by (simp add: power_int_minus)
  then show ?thesis
    by (simp add: nextScale_def literal_tenth literal_three)
qed

lemma zoom_in_16: "nextScale In (Num (5629499534213123 / 2 ^ 51)) = Num (365917469723853 / 2 ^ 47)"
proof -
  have "binary64 (5629499534213123 / 2 ^ 51 + 3602879701896397 / 2 ^ 55) = Num (365917469723853 / 2 ^ 47)"
    using binary64_eqI[of "1" "5629499534213123 / 2 ^ 51 + 3602879701896397 / 2 ^ 55" 5854679515581648]
    by (simp add: power_int_minus)
  then show ?thesis
    by (simp add: nextScale_def literal_tenth literal_three)
qed

lemma zoom_in_17: "nextScale In (Num (365917469723853 / 2 ^ 47)) = Num (6079859496950173 / 2 ^ 51)"
proof -
  have "binary64 (365917469723853 / 2 ^ 47 + 3602879701896397 / 2 ^ 55) = Num (6079859496950173 / 2 ^ 51)"
    using binary64_eqI[of "1" "365917469723853 / 2 ^ 47 + 3602879701896397 / 2 ^ 55" 6079859496950173]
    by (simp add: power_int_minus)
  then show ?thesis
    by (simp add: nextScale_def literal_tenth literal_three)
qed

lemma zoom_in_18: "nextScale In (Num (6079859496950173 / 2 ^ 51)) = Num (3152519739159349 / 2 ^ 50)"
proof -
  have "binary64 (6079859496950173 / 2 ^ 51 + 3602879701896397 / 2 ^ 55) = Num (3152519739159349 / 2 ^ 50)"
    using binary64_eqI[of "1" "6079859496950173 / 2 ^ 51 + 3602879701896397 / 2 ^ 55" 6305039478318698]
    by (simp add: power_int_minus)
  then show ?thesis
    by (simp add: nextScale_def literal_tenth literal_three)
qed

lemma zoom_in_19: "nextScale In (Num (3152519739159349 / 2 ^ 50)) = Num (6530219459687223 / 2 ^ 51)"
proof -
  have "binary64 (3152519739159349 / 2 ^ 50 + 3602879701896397 / 2 ^ 55) = Num (6530219459687223 / 2 ^ 51)"
    using binary64_eqI[of "1" "3152519739159349 / 2 ^ 50 + 3602879701896397 / 2 ^ 55" 6530219459687223]
    by (simp add: power_int_minus)
  then show ?thesis
    by (simp add: nextScale_def literal_tenth literal_three)
qed

lemma zoom_in_20: "nextScale In (Num (6530219459687223 / 2 ^ 51)) = Num (1688849860263937 / 2 ^ 49)"
proof -
  have "binary64 (6530219459687223 / 2 ^ 51 + 3602879701896397 / 2 ^ 55) = Num (1688849860263937 / 2 ^ 49)"
    using binary64_eqI[of "1" "6530219459687223 / 2 ^ 51 + 3602879701896397 / 2 ^ 55" 6755399441055748]
    by (simp add: power_int_minus)
  then show ?thesis
    by (simp add: nextScale_def literal_tenth literal_three)
qed

lemma zoom_out_stays: "nextScale Out (Num (1801439850948199 / 2 ^ 52)) = Num (1801439850948199 / 2 ^ 52)"
  by (simp add: nextScale_def literal_half_reduced js_gt_def)

lemma zooms_scale: "scale (zooms ds a) = fold nextScale ds (scale a)"
  by (induction ds arbitrary: a) (simp_all add: handleZoom_def)

lemma fold_fixed: "f d s = s \<Longrightarrow> fold f (replicate n d) s = s"
  by (induction n) simp_all

lemma five_in: "fold nextScale [In, In, In, In, In] (Num 1) = Num (3377699720527873 / 2 ^ 51)"
  by (simp only: fold_simps comp_apply id_apply zoom_in_1 zoom_in_2 zoom_in_3 zoom_in_4 zoom_in_5)

lemma six_out: "fold nextScale [Out, Out, Out, Out, Out, Out] (Num 1) = Num (1801439850948199 / 2 ^ 52)"
  by (simp only: fold_simps comp_apply id_apply zoom_out_1 zoom_out_2 zoom_out_3 zoom_out_4
      zoom_out_5 zoom_out_6)

lemma twenty_in:
  "fold nextScale [In, In, In, In, In, In, In, In, In, In, In, In, In, In, In, In, In, In, In, In]
     (Num 1) = Num (1688849860263937 / 2 ^ 49)"
  by (simp only: fold_simps comp_apply id_apply zoom_in_1 zoom_in_2 zoom_in_3 zoom_in_4 zoom_in_5 zoom_in_6 zoom_in_7 zoom_in_8 zoom_in_9 zoom_in_10 zoom_in_11 zoom_in_12 zoom_in_13 zoom_in_14 zoom_in_15 zoom_in_16 zoom_in_17 zoom_in_18 zoom_in_19 zoom_in_20)

lemma replicate_5: "replicate 5 d = [d, d, d, d, d]"
  by (simp add: numeral_eq_Suc)

lemma replicate_20:
  "replicate 20 d = [d, d, d, d, d, d] @ replicate 14 d"
  "replicate 20 d = [d, d, d, d, d, d, d, d, d, d, d, d, d, d, d, d, d, d, d, d]"
  by (simp_all add: numeral_eq_Suc)

text \<open>
  Claim C4 does not hold of the code. The step \<^verbatim>\<open>0.1\<close> is not a binary64 number and
  the sums are rounded, so the guards \<^verbatim>\<open>prev < 3\<close> and \<^verbatim>\<open>prev > 0.5\<close> let one more step
  through: from the default zoom 1, five zoom-in requests give 1.5000000000000004 and not
  1.5; twenty zoom-out requests give 0.40000000000000013, below 0.5; twenty zoom-in
  requests give 3.0000000000000018, above 3.
\<close>

theorem zoom_leaves_range:
  "scale (initialApp exampleWindow exampleRect) = Num 1
   \<and> scale (zooms (replicate 5 In) (initialApp exampleWindow exampleRect)) = Num (3377699720527873 / 2 ^ 51)
   \<and> 3377699720527873 / 2 ^ 51 \<noteq> (3 / 2 :: real)
   \<and> scale (zooms (replicate 20 Out) (initialApp exampleWindow exampleRect))
       = Num (1801439850948199 / 2 ^ 52)
   \<and> 1801439850948199 / 2 ^ 52 < (1 / 2 :: real)
   \<and> scale (zooms (replicate 20 In) (initialApp exampleWindow exampleRect)) = Num (1688849860263937 / 2 ^ 49)
   \<and> (3 :: real) < 1688849860263937 / 2 ^ 49"
proof -
  have init: "scale (initialApp exampleWindow exampleRect) = Num 1"
    by (simp add: initialApp_def)
  have a: "scale (zooms (replicate 5 In) (initialApp exampleWindow exampleRect)) = Num (3377699720527873 / 2 ^ 51)"
    unfolding zooms_scale init replicate_5 by (rule five_in)
  have "fold nextScale ([Out, Out, Out, Out, Out, Out] @ replicate 14 Out) (Num 1)
      = Num (1801439850948199 / 2 ^ 52)"
    unfolding fold_append comp_apply six_out
    using zoom_out_stays by (rule fold_fixed[of nextScale Out])
  then have b: "scale (zooms (replicate 20 Out) (initialApp exampleWindow exampleRect))
       = Num (1801439850948199 / 2 ^ 52)"
    unfolding zooms_scale init replicate_20(1) .
  have c: "scale (zooms (replicate 20 In) (initialApp exampleWindow exampleRect)) = Num (1688849860263937 / 2 ^ 49)"
    unfolding zooms_scale init replicate_20(2) by (rule twenty_in)
  show ?thesis using init a b c by simp
qed

lemma toString_example: "toString 1700000000000 = ''1700000000000''"
  by (simp add: toString_def digits.simps digit_char_def)

lemma parseInt_15: "parseInt ''15'' = Num 15"
  by (simp add: parseInt_def isWhiteSpace_def isDigit_def digitValue_def mathInt_def Let_def)

lemma stickerBoard_eq:
  "stickerBoard =
     (initialApp exampleWindow exampleRect)
       \<lparr>showStickerPicker := True,
        stickers := [\<lparr>id' = ''sticker-1700000000000'', x = Num 100, y = Num 100,
                      width = Num 50, height = Num 50, type' = ''fas fa-heart''\<rparr>]\<rparr>"
  by (simp add: stickerBoard_def initialApp_def exampleRect_def handleToolChange_def selectSticker_def
      handleCanvasClick_def canvasX_def canvasY_def js_sub_def Let_def STICKER_DEFAULT_SIZE_def toString_example)

lemma stickerBoard_fields:
  "tool stickerBoard = NoTool"
  "isDrawing stickerBoard = False"
  "lastPosition stickerBoard = None"
  "canvasRef stickerBoard = Some exampleRect"
  "contextRef stickerBoard = Some (initialContext exampleWindow)"
  "stickers stickerBoard = [\<lparr>id' = ''sticker-1700000000000'', x = Num 100, y = Num 100,
                      width = Num 50, height = Num 50, type' = ''fas fa-heart''\<rparr>]"
  "textBoxes stickerBoard = []"
  "images stickerBoard = []"
  by (simp_all add: stickerBoard_eq initialApp_def)

lemma eraserBoard_eq:
  "eraserBoard =
     stickerBoard
       \<lparr>tool := Eraser, penSize := Num 15, showColorPicker := False, showStickerPicker := False,
        contextRef := Some ((initialContext exampleWindow)\<lparr>lineWidth := Num 15\<rparr>)\<rparr>"
  by (simp add: eraserBoard_def stickerBoard_eq initialApp_def handleToolChange_def
      onPenSizeChange_def applyStyle_def parseInt_15 Let_def js_gt_def initialContext_def
      DEFAULT_COLOR_def)

lemma eraserBoard_fields:
  "tool eraserBoard = Eraser"
  "contextRef eraserBoard = Some ((initialContext exampleWindow)\<lparr>lineWidth := Num 15\<rparr>)"
  "canvasRef eraserBoard = Some exampleRect"
  "penSize eraserBoard = Num 15"
  "scale eraserBoard = Num 1"
  "isDrawing eraserBoard = False"
  "stickers eraserBoard = [\<lparr>id' = ''sticker-1700000000000'', x = Num 100, y = Num 100,
                      width = Num 50, height = Num 50, type' = ''fas fa-heart''\<rparr>]"
  "textBoxes eraserBoard = []"
  "images eraserBoard = []"
  by (simp_all add: eraserBoard_eq stickerBoard_eq initialApp_def)

lemma strokeBoard_fields:
  "tool strokeBoard = Pen"
  "isDrawing strokeBoard = True"
  "lastPosition strokeBoard = Some (Num 20, Num 20)"
  "canvasRef strokeBoard = Some exampleRect"
  "contextRef strokeBoard =
     Some ((initialContext exampleWindow)
       \<lparr>currentPath := [MoveTo (Num 10) (Num 10), LineTo (Num 20) (Num 20)],
        bitmap := bitmap (initialContext exampleWindow) @
          [Stroked [MoveTo (Num 10) (Num 10), LineTo (Num 20) (Num 20)] ''#000000'' (Num 3) []]\<rparr>)"
  by (simp_all add: strokeBoard_def initialApp_def exampleRect_def handleToolChange_def
      startDrawing_def onMouseMove_def draw_def canvasX_def canvasY_def js_sub_def Let_def
      ctx_beginPath_def ctx_moveTo_def ctx_lineTo_def ctx_stroke_def initialContext_def
      DEFAULT_COLOR_def DEFAULT_PEN_SIZE_def)

lemma switchedBoard_fields:
  "tool switchedBoard = Eraser"
  "isDrawing switchedBoard = True"
  "lastPosition switchedBoard = Some (Num 20, Num 20)"
  by (simp_all add: switchedBoard_def handleToolChange_def Let_def strokeBoard_fields)

section \<open>Evaluation of the zoomed boards\<close>

lemma zoom_in_1_value: "nextScale In (Num 1) = Num (2476979795053773 / 2251799813685248)"
  using zoom_in_1 by simp

lemma zoom_in_2_value: "nextScale In (Num (2476979795053773 / 2251799813685248)) = Num (1351079888211149 / 1125899906842624)"
  using zoom_in_2 by simp

lemma zoom_in_3_value: "nextScale In (Num (1351079888211149 / 1125899906842624)) = Num (2927339757790823 / 2251799813685248)"
  using zoom_in_3 by simp

lemma zoom_in_4_value: "nextScale In (Num (2927339757790823 / 2251799813685248)) = Num (788129934789837 / 562949953421312)"
  using zoom_in_4 by simp

lemma zoom_out_1_value: "nextScale Out (Num 1) = Num (8106479329266893 / 9007199254740992)"
  using zoom_out_1 by simp

lemma zoom_out_2_value: "nextScale Out (Num (8106479329266893 / 9007199254740992)) = Num (3602879701896397 / 4503599627370496)"
  using zoom_out_2 by simp

lemma zoom_out_3_value: "nextScale Out (Num (3602879701896397 / 4503599627370496)) = Num (6305039478318695 / 9007199254740992)"
  using zoom_out_3 by simp

lemma zoom_out_4_value: "nextScale Out (Num (6305039478318695 / 9007199254740992)) = Num (1351079888211149 / 2251799813685248)"
  using zoom_out_4 by simp

lemma zoom_out_5_value: "nextScale Out (Num (1351079888211149 / 2251799813685248)) = Num (4503599627370497 / 9007199254740992)"
  using zoom_out_5 by simp

lemma zoom_out_6_value: "nextScale Out (Num (4503599627370497 / 9007199254740992)) = Num (1801439850948199 / 4503599627370496)"
  using zoom_out_6 by simp

lemma zoomed_in_1: "js_sub (Num 45) (Num 0) = Num 45"
proof -
  have "binary64 (45 + - 0) = Num 45"
    using binary64_eqI[of "5" "45 + - 0" 6333186975989760]
    by (simp add: power_int_minus)
  then show ?thesis by (simp add: js_sub_def)
qed

lemma zoomed_in_2: "js_div (Num 45) (Num (788129934789837 / 562949953421312)) = Num (4523704982849827 / 140737488355328)"
proof -
  have "binary64 (45 / (788129934789837 / 562949953421312)) = Num (4523704982849827 / 140737488355328)"
    using binary64_eqI[of "5" "45 / (788129934789837 / 562949953421312)" 4523704982849827]
    by (simp add: power_int_minus)
  then show ?thesis by (simp)
qed

lemma zoomed_in_3: "js_sub (Num 40) (Num 0) = Num 40"
proof -
  have "binary64 (40 + - 0) = Num 40"
    using binary64_eqI[of "5" "40 + - 0" 5629499534213120]
    by (simp add: power_int_minus)
  then show ?thesis by (simp add: js_sub_def)
qed

lemma zoomed_in_4: "js_div (Num 40) (Num (788129934789837 / 562949953421312)) = Num (8042142191733027 / 281474976710656)"
proof -
  have "binary64 (40 / (788129934789837 / 562949953421312)) = Num (8042142191733027 / 281474976710656)"
    using binary64_eqI[of "4" "40 / (788129934789837 / 562949953421312)" 8042142191733027]
    by (simp add: power_int_minus)
  then show ?thesis by (simp)
qed

lemma zoomed_in_5: "js_sub (Num 80) (Num 0) = Num 80"
proof -
  have "binary64 (80 + - 0) = Num 80"
    using binary64_eqI[of "6" "80 + - 0" 5629499534213120]
    by (simp add: power_int_minus)
  then show ?thesis by (simp add: js_sub_def)
qed

lemma zoomed_in_6: "js_div (Num 80) (Num (788129934789837 / 562949953421312)) = Num (8042142191733027 / 140737488355328)"
proof -
  have "binary64 (80 / (788129934789837 / 562949953421312)) = Num (8042142191733027 / 140737488355328)"
    using binary64_eqI[of "5" "80 / (788129934789837 / 562949953421312)" 8042142191733027]
    by (simp add: power_int_minus)
  then show ?thesis by (simp)
qed

lemma zoomed_in_7: "js_sub (Num 33) (Num 0) = Num 33"
proof -
  have "binary64 (33 + - 0) = Num 33"
    using binary64_eqI[of "5" "33 + - 0" 4644337115725824]
    by (simp add: power_int_minus)
  then show ?thesis by (simp add: js_sub_def)
qed

lemma zoomed_in_8: "js_div (Num 33) (Num (788129934789837 / 562949953421312)) = Num (6634767308179747 / 281474976710656)"
proof -
  have "binary64 (33 / (788129934789837 / 562949953421312)) = Num (6634767308179747 / 281474976710656)"
    using binary64_eqI[of "4" "33 / (788129934789837 / 562949953421312)" 6634767308179747]
    by (simp add: power_int_minus)
  then show ?thesis by (simp)
qed

lemma zoomed_in_9: "js_div (Num 50) (Num 2) = Num 25"
proof -
  have "binary64 (50 / 2) = Num 25"
    using binary64_eqI[of "4" "50 / 2" 7036874417766400]
    by (simp add: power_int_minus)
  then show ?thesis by (simp)
qed

lemma zoomed_in_10: "js_add (Num (4523704982849827 / 140737488355328)) (Num 25) = Num (8042142191733027 / 140737488355328)"
proof -
  have "binary64 ((4523704982849827 / 140737488355328) + 25) = Num (8042142191733027 / 140737488355328)"
    using binary64_eqI[of "5" "(4523704982849827 / 140737488355328) + 25" 8042142191733027]
    by (simp add: power_int_minus)
  then show ?thesis by (simp)
qed

lemma zoomed_in_11: "js_add (Num (8042142191733027 / 281474976710656)) (Num 25) = Num (3769754152374857 / 70368744177664)"
proof -
  have "binary64 ((8042142191733027 / 281474976710656) + 25) = Num (3769754152374857 / 70368744177664)"
    using binary64_eqI[of "5" "(8042142191733027 / 281474976710656) + 25" 7539508304749714]
    by (simp add: power_int_minus)
  then show ?thesis by (simp)
qed

lemma zoomed_in_12: "js_sub (Num (8042142191733027 / 140737488355328)) (Num (8042142191733027 / 140737488355328)) = Num 0"
  by (simp add: js_sub_def)

lemma zoomed_in_13: "Math_pow2 (Num 0) = Num 0"
  by simp

lemma zoomed_in_14: "js_sub (Num (3769754152374857 / 70368744177664)) (Num (6634767308179747 / 281474976710656)) = Num (8444249301319681 / 281474976710656)"
proof -
  have "binary64 ((3769754152374857 / 70368744177664) + - (6634767308179747 / 281474976710656)) = Num (8444249301319681 / 281474976710656)"
    using binary64_eqI[of "4" "(3769754152374857 / 70368744177664) + - (6634767308179747 / 281474976710656)" 8444249301319681]
    by (simp add: power_int_minus)
  then show ?thesis by (simp add: js_sub_def)
qed

lemma zoomed_in_15: "Math_pow2 (Num (8444249301319681 / 281474976710656)) = Num (3958241859993601 / 4398046511104)"
proof -
  have "binary64 ((8444249301319681 / 281474976710656)\<^sup>2) = Num (3958241859993601 / 4398046511104)"
    using binary64_eqI[of "9" "(8444249301319681 / 281474976710656)\<^sup>2" 7916483719987202]
    by (simp add: power_int_minus power2_eq_square)
  then show ?thesis by simp
qed

lemma zoomed_in_16: "js_add (Num 0) (Num (3958241859993601 / 4398046511104)) = Num (3958241859993601 / 4398046511104)"
proof -
  have "binary64 (0 + (3958241859993601 / 4398046511104)) = Num (3958241859993601 / 4398046511104)"
    using binary64_eqI[of "9" "0 + (3958241859993601 / 4398046511104)" 7916483719987202]
    by (simp add: power_int_minus)
  then show ?thesis by (simp)
qed

lemma zoomed_in_17: "Math_sqrt (Num (3958241859993601 / 4398046511104)) = Num (8444249301319681 / 281474976710656)"
proof -
  have "binary64 (sqrt (3958241859993601 / 4398046511104)) = Num (8444249301319681 / 281474976710656)"
    using binary64_sqrt_eqI[of "3958241859993601 / 4398046511104" "4" 8444249301319681]
    by (simp add: power_int_minus power2_eq_square)
  then show ?thesis by simp
qed

lemma zoomed_out_1: "js_sub (Num 100) (Num 0) = Num 100"
proof -
  have "binary64 (100 + - 0) = Num 100"
    using binary64_eqI[of "6" "100 + - 0" 7036874417766400]
    by (simp add: power_int_minus)
  then show ?thesis by (simp add: js_sub_def)
qed

lemma zoomed_out_2: "js_div (Num 100) (Num (1801439850948199 / 4503599627370496)) = Num (8796093022207997 / 35184372088832)"
proof -
  have "binary64 (100 / (1801439850948199 / 4503599627370496)) = Num (8796093022207997 / 35184372088832)"
    using binary64_eqI[of "7" "100 / (1801439850948199 / 4503599627370496)" 8796093022207997]
    by (simp add: power_int_minus)
  then show ?thesis by (simp)
qed

lemma zoomed_out_3: "js_sub (Num 106) (Num 0) = Num 106"
proof -
  have "binary64 (106 + - 0) = Num 106"
    using binary64_eqI[of "6" "106 + - 0" 7459086882832384]
    by (simp add: power_int_minus)
  then show ?thesis by (simp add: js_sub_def)
qed

lemma zoomed_out_4: "js_div (Num 106) (Num (1801439850948199 / 4503599627370496)) = Num (2330964650885119 / 8796093022208)"
proof -
  have "binary64 (106 / (1801439850948199 / 4503599627370496)) = Num (2330964650885119 / 8796093022208)"
    using binary64_eqI[of "8" "106 / (1801439850948199 / 4503599627370496)" 4661929301770238]
    by (simp add: power_int_minus)
  then show ?thesis by (simp)
qed

lemma zoomed_out_5: "js_sub (Num 110) (Num 0) = Num 110"
proof -
  have "binary64 (110 + - 0) = Num 110"
    using binary64_eqI[of "6" "110 + - 0" 7740561859543040]
    by (simp add: power_int_minus)
  then show ?thesis by (simp add: js_sub_def)
qed

lemma zoomed_out_6: "js_div (Num 110) (Num (1801439850948199 / 4503599627370496)) = Num (2418925581107199 / 8796093022208)"
proof -
  have "binary64 (110 / (1801439850948199 / 4503599627370496)) = Num (2418925581107199 / 8796093022208)"
    using binary64_eqI[of "8" "110 / (1801439850948199 / 4503599627370496)" 4837851162214398]
    by (simp add: power_int_minus)
  then show ?thesis by (simp)
qed

lemma zoomed_out_7: "js_div (Num 50) (Num 2) = Num 25"
proof -
  have "binary64 (50 / 2) = Num 25"
    using binary64_eqI[of "4" "50 / 2" 7036874417766400]
    by (simp add: power_int_minus)
  then show ?thesis by (simp)
qed

lemma zoomed_out_8: "js_add (Num (8796093022207997 / 35184372088832)) (Num 25) = Num (2418925581107199 / 8796093022208)"
proof -
  have "binary64 ((8796093022207997 / 35184372088832) + 25) = Num (2418925581107199 / 8796093022208)"
    using binary64_eqI[of "8" "(8796093022207997 / 35184372088832) + 25" 4837851162214398]
    by (simp add: power_int_minus)
  then show ?thesis by (simp)
qed

lemma zoomed_out_9: "js_sub (Num (2418925581107199 / 8796093022208)) (Num (2330964650885119 / 8796093022208)) = Num 10"
proof -
  have "binary64 ((2418925581107199 / 8796093022208) + - (2330964650885119 / 8796093022208)) = Num 10"
    using binary64_eqI[of "3" "(2418925581107199 / 8796093022208) + - (2330964650885119 / 8796093022208)" 5629499534213120]
    by (simp add: power_int_minus)
  then show ?thesis by (simp add: js_sub_def)
qed

lemma zoomed_out_10: "Math_pow2 (Num 10) = Num 100"
proof -
  have "binary64 (10\<^sup>2) = Num 100"
    using binary64_eqI[of "6" "10\<^sup>2" 7036874417766400]
    by (simp add: power_int_minus power2_eq_square)
  then show ?thesis by simp
qed

lemma zoomed_out_11: "js_sub (Num (2418925581107199 / 8796093022208)) (Num (2418925581107199 / 8796093022208)) = Num 0"
  by (simp add: js_sub_def)

lemma zoomed_out_12: "Math_pow2 (Num 0) = Num 0"
  by simp

lemma zoomed_out_13: "js_add (Num 100) (Num 0) = Num 100"
proof -
  have "binary64 (100 + 0) = Num 100"
    using binary64_eqI[of "6" "100 + 0" 7036874417766400]
    by (simp add: power_int_minus)
  then show ?thesis by (simp)
qed

lemma zoomed_out_14: "Math_sqrt (Num 100) = Num 10"
proof -
  have "binary64 (sqrt (100)) = Num 10"
    using binary64_sqrt_eqI[of "100" "3" 5629499534213120]
    by (simp add: power_int_minus power2_eq_square)
  then show ?thesis by simp
qed

lemmas zoomed_in_ops = zoomed_in_1 zoomed_in_2 zoomed_in_3 zoomed_in_4 zoomed_in_5 zoomed_in_6 zoomed_in_7 zoomed_in_8 zoomed_in_9 zoomed_in_10 zoomed_in_11 zoomed_in_12 zoomed_in_13 zoomed_in_14 zoomed_in_15 zoomed_in_16 zoomed_in_17

lemmas zoomed_out_ops = zoomed_out_1 zoomed_out_2 zoomed_out_3 zoomed_out_4 zoomed_out_5 zoomed_out_6 zoomed_out_7 zoomed_out_8 zoomed_out_9 zoomed_out_10 zoomed_out_11 zoomed_out_12 zoomed_out_13 zoomed_out_14

lemmas zoom_values = zoom_in_1_value zoom_in_2_value zoom_in_3_value zoom_in_4_value zoom_out_1_value zoom_out_2_value zoom_out_3_value zoom_out_4_value zoom_out_5_value zoom_out_6_value

lemma parseInt_5: "parseInt ''5'' = Num 5"
  by (simp add: parseInt_def isWhiteSpace_def isDigit_def digitValue_def mathInt_def Let_def)

lemma zoomedInBoard_fields:
  "tool zoomedInBoard = Eraser"
  "contextRef zoomedInBoard = Some ((initialContext exampleWindow)\<lparr>lineWidth := Num 15\<rparr>)"
  "canvasRef zoomedInBoard = Some exampleRect"
  "penSize zoomedInBoard = Num 15"
  "scale zoomedInBoard = Num (788129934789837 / 562949953421312)"
  "stickers zoomedInBoard = [\<lparr>id' = ''sticker-1700000000000'', x = Num (4523704982849827 / 140737488355328),
       y = Num (8042142191733027 / 281474976710656), width = Num 50, height = Num 50,
       type' = ''fas fa-heart''\<rparr>]"
  "textBoxes zoomedInBoard = []"
  "images zoomedInBoard = []"
  by (simp_all add: zoomedInBoard_def initialApp_def exampleRect_def handleToolChange_def selectSticker_def
      handleCanvasClick_def canvasX_def canvasY_def Let_def STICKER_DEFAULT_SIZE_def
      toString_example handleZoom_def onPenSizeChange_def applyStyle_def parseInt_15 parseInt_5
      js_gt_def initialContext_def DEFAULT_COLOR_def zoom_values zoomed_in_ops zoomed_out_ops
      del: js_add.simps js_div.simps)

lemma zoomedOutBoard_fields:
  "tool zoomedOutBoard = Eraser"
  "contextRef zoomedOutBoard = Some ((initialContext exampleWindow)\<lparr>lineWidth := Num 5\<rparr>)"
  "canvasRef zoomedOutBoard = Some exampleRect"
  "penSize zoomedOutBoard = Num 5"
  "scale zoomedOutBoard = Num (1801439850948199 / 4503599627370496)"
  "stickers zoomedOutBoard = [\<lparr>id' = ''sticker-1700000000000'', x = Num (8796093022207997 / 35184372088832),
       y = Num (8796093022207997 / 35184372088832), width = Num 50, height = Num 50,
       type' = ''fas fa-heart''\<rparr>]"
  "textBoxes zoomedOutBoard = []"
  "images zoomedOutBoard = []"
  by (simp_all add: zoomedOutBoard_def initialApp_def exampleRect_def handleToolChange_def selectSticker_def
      handleCanvasClick_def canvasX_def canvasY_def Let_def STICKER_DEFAULT_SIZE_def
      toString_example handleZoom_def onPenSizeChange_def applyStyle_def parseInt_15 parseInt_5
      js_gt_def initialContext_def DEFAULT_COLOR_def zoom_values zoomed_in_ops zoomed_out_ops
      del: js_add.simps js_div.simps)

section \<open>The eraser keeps the objects whose computed distance exceeds the radius\<close>

lemma scenario_1: "js_div (Num 50) (Num 2) = Num 25"
proof -
  have "binary64 (50 / 2) = Num 25"
    using binary64_eqI[of "4" "50 / 2" "7036874417766400"]
    by (simp add: power_int_minus)
  then show ?thesis by (simp)
qed

lemma scenario_2: "js_add (Num 100) (Num 25) = Num 125"
proof -
  have "binary64 (100 + 25) = Num 125"
    using binary64_eqI[of "6" "100 + 25" "8796093022208000"]
    by (simp add: power_int_minus)
  then show ?thesis by (simp)
qed

lemma scenario_3: "js_sub (Num 125) (Num 120) = Num 5"
proof -
  have "binary64 (125 + - 120) = Num 5"
    using binary64_eqI[of "2" "125 + - 120" "5629499534213120"]
    by (simp add: power_int_minus)
  then show ?thesis by (simp add: js_sub_def)
qed

lemma scenario_4: "Math_pow2 (Num 5) = Num 25"
proof -
  have "binary64 (5\<^sup>2) = Num 25"
    using binary64_eqI[of "4" "5\<^sup>2" "7036874417766400"]
    by (simp add: power_int_minus power2_eq_square)
  then show ?thesis by simp
qed

lemma scenario_5: "js_add (Num 25) (Num 25) = Num 50"
proof -
  have "binary64 (25 + 25) = Num 50"
    using binary64_eqI[of "5" "25 + 25" "7036874417766400"]
    by (simp add: power_int_minus)
  then show ?thesis by (simp)
qed

lemma scenario_6: "Math_sqrt (Num 50) = Num (124395540479019 / 17592186044416)"
proof -
  have "binary64 (sqrt (50)) = Num (124395540479019 / 17592186044416)"
    using binary64_sqrt_eqI[of "50" "2" 7961314590657216]
    by (simp add: power_int_minus power2_eq_square)
  then show ?thesis by simp
qed

lemma scenario_7: "js_sub (Num 125) (Num 200) = Num (- 75)"
proof -
  have "binary64 (125 + - 200) = Num (- 75)"
    using binary64_eqI[of "6" "125 + - 200" "- 5277655813324800"]
    by (simp add: power_int_minus)
  then show ?thesis by (simp add: js_sub_def)
qed

lemma scenario_8: "Math_pow2 (Num (- 75)) = Num 5625"
proof -
  have "binary64 ((- 75)\<^sup>2) = Num 5625"
    using binary64_eqI[of "12" "(- 75)\<^sup>2" "6184752906240000"]
    by (simp add: power_int_minus power2_eq_square)
  then show ?thesis by simp
qed

lemma scenario_9: "js_add (Num 5625) (Num 5625) = Num 11250"
proof -
  have "binary64 (5625 + 5625) = Num 11250"
    using binary64_eqI[of "13" "5625 + 5625" "6184752906240000"]
    by (simp add: power_int_minus)
  then show ?thesis by (simp)
qed

lemma scenario_10: "Math_sqrt (Num 11250) = Num (1865933107185285 / 17592186044416)"
proof -
  have "binary64 (sqrt (11250)) = Num (1865933107185285 / 17592186044416)"
    using binary64_sqrt_eqI[of "11250" "6" 7463732428741140]
    by (simp add: power_int_minus power2_eq_square)
  then show ?thesis by simp
qed

lemmas scenario_ops = scenario_1 scenario_2 scenario_3 scenario_4 scenario_5 scenario_6 scenario_7 scenario_8 scenario_9 scenario_10

lemma keeps_survives64: "keeps px py r obj = survives64 (px, py) r obj"
  by (simp add: keeps_def survives64_def distance64_def center64_def Let_def)

lemma radius_of_pen: "n < 2 ^ 52 \<Longrightarrow> js_mul (Num (real n)) (Num 2) = Num (2 * real n)"
  using binary64_of_nat[of "2 * n"] by (simp add: mult.commute)

lemma erase_filters:
  assumes "tool a = Eraser" "contextRef a = Some ctx" "canvasRef a = Some rect"
    and "\<not> js_lt (js_mul (penSize a) (Num 2)) (Num 0)"
  shows "stickers (state_of (erase e a)) =
           filter (keeps (canvasX e rect (scale a)) (canvasY e rect (scale a))
                     (js_mul (penSize a) (Num 2))) (stickers a)"
    and "textBoxes (state_of (erase e a)) =
           filter (keeps (canvasX e rect (scale a)) (canvasY e rect (scale a))
                     (js_mul (penSize a) (Num 2))) (textBoxes a)"
    and "images (state_of (erase e a)) =
           filter (keeps (canvasX e rect (scale a)) (canvasY e rect (scale a))
                     (js_mul (penSize a) (Num 2))) (images a)"
  using assms by (simp_all add: erase_def ctx_arc_def Let_def)

lemma sqrt_900: "sqrt 900 = 30"
  by (rule real_sqrt_unique) simp_all

text \<open>
  Claim C1 does not hold of the code as stated, with the Euclidean distance of the exact
  centre. The filters compare the distance they compute in binary64, every operation
  rounded. On the board zoomed in four times (zoom 1.4000000000000004) the sticker placed
  by a click at \<open>(45, 40)\<close> has its exact centre at distance exactly 30 from the point of an
  eraser application at client \<open>(80, 33)\<close> with pen size 15, so the claim removes it; the
  code computes 30.000000000000004 and keeps it. On the board zoomed out six times (zoom
  0.40000000000000013) the sticker placed by a click at \<open>(100, 100)\<close> has its exact centre
  farther than 10 from the point of an application at client \<open>(106, 110)\<close> with pen size
  5, so the claim keeps it; the code computes exactly 10 and removes it.
\<close>

theorem erase_exact_distance_counterexample:
  "scale zoomedInBoard = Num (788129934789837 / 2 ^ 49)
   \<and> penSize zoomedInBoard = Num 15
   \<and> stickers zoomedInBoard =
       [\<lparr>id' = ''sticker-1700000000000'', x = Num (4523704982849827 / 2 ^ 47),
        y = Num (8042142191733027 / 2 ^ 48), width = Num 50, height = Num 50,
        type' = ''fas fa-heart''\<rparr>]
   \<and> canvasX \<lparr>clientX = 80, clientY = 33, buttons = 1\<rparr> exampleRect (scale zoomedInBoard)
       = Num (8042142191733027 / 2 ^ 47)
   \<and> canvasY \<lparr>clientX = 80, clientY = 33, buttons = 1\<rparr> exampleRect (scale zoomedInBoard)
       = Num (6634767308179747 / 2 ^ 48)
   \<and> filter (survives ((8042142191733027 / 2 ^ 47), (6634767308179747 / 2 ^ 48)) (2 * 15))
        (stickers zoomedInBoard) = []
   \<and> stickers (state_of (erase \<lparr>clientX = 80, clientY = 33, buttons = 1\<rparr> zoomedInBoard))
       = stickers zoomedInBoard
   \<and> scale zoomedOutBoard = Num (1801439850948199 / 2 ^ 52)
   \<and> penSize zoomedOutBoard = Num 5
   \<and> stickers zoomedOutBoard =
       [\<lparr>id' = ''sticker-1700000000000'', x = Num (8796093022207997 / 2 ^ 45),
        y = Num (8796093022207997 / 2 ^ 45), width = Num 50, height = Num 50,
        type' = ''fas fa-heart''\<rparr>]
   \<and> canvasX \<lparr>clientX = 106, clientY = 110, buttons = 1\<rparr> exampleRect (scale zoomedOutBoard)
       = Num (2330964650885119 / 2 ^ 43)
   \<and> canvasY \<lparr>clientX = 106, clientY = 110, buttons = 1\<rparr> exampleRect (scale zoomedOutBoard)
       = Num (2418925581107199 / 2 ^ 43)
   \<and> filter (survives ((2330964650885119 / 2 ^ 43), (2418925581107199 / 2 ^ 43)) (2 * 5))
        (stickers zoomedOutBoard) = stickers zoomedOutBoard
   \<and> stickers (state_of (erase \<lparr>clientX = 106, clientY = 110, buttons = 1\<rparr> zoomedOutBoard))
       = []"
proof -
  let ?eIn = "\<lparr>clientX = 80, clientY = 33, buttons = 1\<rparr>"
  let ?eOut = "\<lparr>clientX = 106, clientY = 110, buttons = 1\<rparr>"
  have pin: "canvasX ?eIn exampleRect (scale zoomedInBoard) = Num (8042142191733027 / 140737488355328)"
      "canvasY ?eIn exampleRect (scale zoomedInBoard) = Num (6634767308179747 / 281474976710656)"
    by (simp_all add: canvasX_def canvasY_def exampleRect_def zoomedInBoard_fields zoomed_in_ops
        del: js_div.simps)
  have pout: "canvasX ?eOut exampleRect (scale zoomedOutBoard) = Num (2330964650885119 / 8796093022208)"
      "canvasY ?eOut exampleRect (scale zoomedOutBoard) = Num (2418925581107199 / 8796093022208)"
    by (simp_all add: canvasX_def canvasY_def exampleRect_def zoomedOutBoard_fields zoomed_out_ops
        del: js_div.simps)
  have exact_in: "filter (survives ((8042142191733027 / 2 ^ 47), (6634767308179747 / 2 ^ 48)) (2 * 15))
        (stickers zoomedInBoard) = []"
    by (simp add: zoomedInBoard_fields survives_def center_def euclideanDistance_def
        power2_eq_square sqrt_900)
  have "(10::real) < sqrt (61897001964269365588677099521 / 618970019642690137449562112)"
    by (rule real_less_rsqrt) simp
  then have exact_out: "filter (survives ((2330964650885119 / 2 ^ 43), (2418925581107199 / 2 ^ 43)) (2 * 5))
        (stickers zoomedOutBoard) = stickers zoomedOutBoard"
    by (simp add: zoomedOutBoard_fields survives_def center_def euclideanDistance_def
        power2_eq_square)
  have code_in: "stickers (state_of (erase ?eIn zoomedInBoard)) = stickers zoomedInBoard"
    using erase_filters(1)[of zoomedInBoard _ exampleRect ?eIn]
    unfolding pin
    by (simp add: zoomedInBoard_fields keeps_def Let_def js_gt_def zoomed_in_ops
        del: js_add.simps js_div.simps Math_pow2.simps Math_sqrt.simps)
  have code_out: "stickers (state_of (erase ?eOut zoomedOutBoard)) = []"
    using erase_filters(1)[of zoomedOutBoard _ exampleRect ?eOut]
    unfolding pout
    by (simp add: zoomedOutBoard_fields keeps_def Let_def js_gt_def zoomed_out_ops
        del: js_add.simps js_div.simps Math_pow2.simps Math_sqrt.simps)
  show ?thesis
    using pin pout exact_in exact_out code_in code_out
    by (simp add: zoomedInBoard_fields zoomedOutBoard_fields)
qed

text \<open>
  Claim C1, amended. An eraser application with pen size \<open>n\<close> uses the radius \<open>2 * n\<close>, and
  in each of the three collections exactly the objects survive, in their order, whose
  distance from the canvas-space point of the event, as the code computes it in binary64
  from the centre \<open>(x + width / 2, y + height / 2)\<close>, is strictly greater than that radius.
\<close>

theorem erase_survival_computed:
  assumes "tool a = Eraser" "contextRef a = Some ctx" "canvasRef a = Some rect"
    and "penSize a = Num (real n)" "n < 2 ^ 52"
  shows "stickers (state_of (erase e a)) =
           filter (survives64 (canvasX e rect (scale a), canvasY e rect (scale a))
                     (Num (2 * real n))) (stickers a)
       \<and> textBoxes (state_of (erase e a)) =
           filter (survives64 (canvasX e rect (scale a), canvasY e rect (scale a))
                     (Num (2 * real n))) (textBoxes a)
       \<and> images (state_of (erase e a)) =
           filter (survives64 (canvasX e rect (scale a), canvasY e rect (scale a))
                     (Num (2 * real n))) (images a)"
proof -
  have r: "js_mul (penSize a) (Num 2) = Num (2 * real n)"
    using assms(4,5) by (simp only: radius_of_pen)
  have "\<not> js_lt (js_mul (penSize a) (Num 2)) (Num 0)"
    unfolding r by simp
  from erase_filters[OF assms(1-3) this, of e] show ?thesis
    unfolding r by (simp add: keeps_survives64 cong: filter_cong)
qed

text \<open>
  The scenarios A and B of the specification: with pen size 15 the radius is 30; the
  sticker with centre \<open>(125, 125)\<close> is removed by an application at \<open>(120, 120)\<close>, where the
  computed distance is 7.0710678118654755, and survives one at \<open>(200, 200)\<close>, where it is
  106.06601717798213.
\<close>

theorem erase_survival_computed_witness:
  "tool eraserBoard = Eraser \<and> canvasRef eraserBoard = Some exampleRect
   \<and> penSize eraserBoard = Num (real 15) \<and> (15 :: nat) < 2 ^ 52
   \<and> distance64 (Num 125, Num 125) (Num 120, Num 120) = Num (124395540479019 / 2 ^ 44)
   \<and> distance64 (Num 125, Num 125) (Num 200, Num 200) = Num (1865933107185285 / 2 ^ 44)
   \<and> stickers (state_of (erase \<lparr>clientX = 120, clientY = 120, buttons = 1\<rparr> eraserBoard)) = []
   \<and> stickers (state_of (erase \<lparr>clientX = 200, clientY = 200, buttons = 1\<rparr> eraserBoard)) =
       stickers eraserBoard"
proof -
  have c: "\<And>b. canvasX \<lparr>clientX = 120, clientY = 120, buttons = b\<rparr> exampleRect (Num 1) = Num 120"
      "\<And>b. canvasY \<lparr>clientX = 120, clientY = 120, buttons = b\<rparr> exampleRect (Num 1) = Num 120"
      "\<And>b. canvasX \<lparr>clientX = 200, clientY = 200, buttons = b\<rparr> exampleRect (Num 1) = Num 200"
      "\<And>b. canvasY \<lparr>clientX = 200, clientY = 200, buttons = b\<rparr> exampleRect (Num 1) = Num 200"
    by (simp_all add: canvasX_def canvasY_def exampleRect_def js_sub_def)
  show ?thesis
    using erase_survival_computed[of eraserBoard
        "(initialContext exampleWindow)\<lparr>lineWidth := Num 15\<rparr>" exampleRect 15
        "\<lparr>clientX = 120, clientY = 120, buttons = 1\<rparr>"]
      erase_survival_computed[of eraserBoard
        "(initialContext exampleWindow)\<lparr>lineWidth := Num 15\<rparr>" exampleRect 15
        "\<lparr>clientX = 200, clientY = 200, buttons = 1\<rparr>"]
    by (simp add: eraserBoard_fields c survives64_def distance64_def center64_def js_gt_def
        scenario_ops del: js_add.simps js_div.simps Math_pow2.simps Math_sqrt.simps)
qed

section \<open>Pasted images are sized and centred\<close>

lemma paste_1: "js_div (Num 320) (Num 464) = Num (1552965388748447 / 2251799813685248)"
proof -
  have "binary64 (320 / 464) = Num (1552965388748447 / 2251799813685248)"
    using binary64_eqI[of "- 1" "320 / 464" "6211861554993788"]
    by (simp add: power_int_minus)
  then show ?thesis by (simp)
qed

lemma paste_2: "js_div (Num 300) (Num (1552965388748447 / 2251799813685248)) = Num (7652600929320959 / 17592186044416)"
proof -
  have "binary64 (300 / (1552965388748447 / 2251799813685248)) = Num (7652600929320959 / 17592186044416)"
    using binary64_eqI[of "8" "300 / (1552965388748447 / 2251799813685248)" "7652600929320959"]
    by (simp add: power_int_minus)
  then show ?thesis by (simp)
qed

lemma paste_3: "js_div (Num 1000) (Num 2) = Num 500"
proof -
  have "binary64 (1000 / 2) = Num 500"
    using binary64_eqI[of "8" "1000 / 2" "8796093022208000"]
    by (simp add: power_int_minus)
  then show ?thesis by (simp)
qed

lemma paste_4: "js_div (Num 500) (Num 1) = Num 500"
proof -
  have "binary64 (500 / 1) = Num 500"
    using binary64_eqI[of "8" "500 / 1" "8796093022208000"]
    by (simp add: power_int_minus)
  then show ?thesis by (simp)
qed

lemma paste_5: "js_div (Num 300) (Num 2) = Num 150"
proof -
  have "binary64 (300 / 2) = Num 150"
    using binary64_eqI[of "7" "300 / 2" "5277655813324800"]
    by (simp add: power_int_minus)
  then show ?thesis by (simp)
qed

lemma paste_6: "js_sub (Num 500) (Num 150) = Num 350"
proof -
  have "binary64 (500 + - 150) = Num 350"
    using binary64_eqI[of "8" "500 + - 150" "6157265115545600"]
    by (simp add: power_int_minus)
  then show ?thesis by (simp add: js_sub_def)
qed

lemma paste_7: "js_div (Num 800) (Num 2) = Num 400"
proof -
  have "binary64 (800 / 2) = Num 400"
    using binary64_eqI[of "8" "800 / 2" "7036874417766400"]
    by (simp add: power_int_minus)
  then show ?thesis by (simp)
qed

lemma paste_8: "js_div (Num 400) (Num 1) = Num 400"
proof -
  have "binary64 (400 / 1) = Num 400"
    using binary64_eqI[of "8" "400 / 1" "7036874417766400"]
    by (simp add: power_int_minus)
  then show ?thesis by (simp)
qed

lemma paste_9: "js_div (Num (7652600929320959 / 17592186044416)) (Num 2) = Num (7652600929320959 / 35184372088832)"
proof -
  have "binary64 ((7652600929320959 / 17592186044416) / 2) = Num (7652600929320959 / 35184372088832)"
    using binary64_eqI[of "7" "(7652600929320959 / 17592186044416) / 2" "7652600929320959"]
    by (simp add: power_int_minus)
  then show ?thesis by (simp)
qed

lemma paste_10: "js_sub (Num 400) (Num (7652600929320959 / 35184372088832)) = Num (6421147906211841 / 35184372088832)"
proof -
  have "binary64 (400 + - (7652600929320959 / 35184372088832)) = Num (6421147906211841 / 35184372088832)"
    using binary64_eqI[of "7" "400 + - (7652600929320959 / 35184372088832)" "6421147906211841"]
    by (simp add: power_int_minus)
  then show ?thesis by (simp add: js_sub_def)
qed

lemma paste_11: "js_div (Num 1000) (Num 333) = Num (3381080801329201 / 1125899906842624)"
proof -
  have "binary64 (1000 / 333) = Num (3381080801329201 / 1125899906842624)"
    using binary64_eqI[of "1" "1000 / 333" "6762161602658402"]
    by (simp add: power_int_minus)
  then show ?thesis by (simp)
qed

lemma paste_12: "js_div (Num 300) (Num (3381080801329201 / 1125899906842624)) = Num (3514918771674317 / 35184372088832)"
proof -
  have "binary64 (300 / (3381080801329201 / 1125899906842624)) = Num (3514918771674317 / 35184372088832)"
    using binary64_eqI[of "6" "300 / (3381080801329201 / 1125899906842624)" "7029837543348634"]
    by (simp add: power_int_minus)
  then show ?thesis by (simp)
qed

lemma paste_13: "js_div (Num (3514918771674317 / 35184372088832)) (Num 2) = Num (3514918771674317 / 70368744177664)"
proof -
  have "binary64 ((3514918771674317 / 35184372088832) / 2) = Num (3514918771674317 / 70368744177664)"
    using binary64_eqI[of "5" "(3514918771674317 / 35184372088832) / 2" "7029837543348634"]
    by (simp add: power_int_minus)
  then show ?thesis by (simp)
qed

lemma paste_14: "js_sub (Num 400) (Num (3514918771674317 / 70368744177664)) = Num (6158144724847821 / 17592186044416)"
proof -
  have "binary64 (400 + - (3514918771674317 / 70368744177664)) = Num (6158144724847821 / 17592186044416)"
    using binary64_eqI[of "8" "400 + - (3514918771674317 / 70368744177664)" "6158144724847821"]
    by (simp add: power_int_minus)
  then show ?thesis by (simp add: js_sub_def)
qed

lemma paste_15: "js_div (Num 600) (Num 400) = Num (3 / 2)"
proof -
  have "binary64 (600 / 400) = Num (3 / 2)"
    using binary64_eqI[of "0" "600 / 400" "6755399441055744"]
    by (simp add: power_int_minus)
  then show ?thesis by (simp)
qed

lemma paste_16: "js_div (Num 300) (Num (3 / 2)) = Num 200"
proof -
  have "binary64 (300 / (3 / 2)) = Num 200"
    using binary64_eqI[of "7" "300 / (3 / 2)" "7036874417766400"]
    by (simp add: power_int_minus)
  then show ?thesis by (simp)
qed

lemma paste_17: "js_div (Num 200) (Num 2) = Num 100"
proof -
  have "binary64 (200 / 2) = Num 100"
    using binary64_eqI[of "6" "200 / 2" "7036874417766400"]
    by (simp add: power_int_minus)
  then show ?thesis by (simp)
qed

lemma paste_18: "js_sub (Num 400) (Num 100) = Num 300"
proof -
  have "binary64 (400 + - 100) = Num 300"
    using binary64_eqI[of "8" "400 + - 100" "5277655813324800"]
    by (simp add: power_int_minus)
  then show ?thesis by (simp add: js_sub_def)
qed

lemmas paste_ops = paste_1 paste_2 paste_3 paste_4 paste_5 paste_6 paste_7 paste_8 paste_9 paste_10 paste_11 paste_12 paste_13 paste_14 paste_15 paste_16 paste_17 paste_18

text \<open>
  Claim C6 does not hold of the code as stated, with the quotients of real numbers. The
  callback computes the aspect ratio and the height in binary64, and the ratio is rounded
  before it divides 300. For a 320 by 464 image, the viewport 1000 by 800 and zoom 1 the
  stored height is 434.99999999999994 and not \<open>300 / (320 / 464) = 435\<close>, and the stored
  \<open>y\<close> is 182.50000000000003 and not \<open>800 / 2 / 1 - 435 / 2 = 182.5\<close>. For a 1000 by 333
  image the stored height is the binary64 number next to \<open>300 / (1000 / 333) = 999 / 10\<close>,
  which is not a binary64 number.
\<close>

theorem img_onload_exact_counterexample:
  "images (img_onload (Num 1) exampleWindow 1700000000000 320 464 ''blob:1''
             (initialApp exampleWindow exampleRect)) =
     [\<lparr>id' = ''img-1700000000000'', x = Num 350,
       y = Num (6421147906211841 / 2 ^ 45),
       width = Num 300, height = Num (7652600929320959 / 2 ^ 44),
       url = ''blob:1''\<rparr>]
   \<and> (300 / (320 / 464) :: real) = 435
   \<and> (435 :: real) - (7652600929320959 / 2 ^ 44) = 1 / 2 ^ 44
   \<and> (800 / 2 / 1 - 300 / (320 / 464) / 2 :: real) = 365 / 2
   \<and> (6421147906211841 / 2 ^ 45) - (365 / 2 :: real) = 1 / 2 ^ 45
   \<and> images (img_onload (Num 1) exampleWindow 1700000000000 1000 333 ''blob:1''
             (initialApp exampleWindow exampleRect)) =
     [\<lparr>id' = ''img-1700000000000'', x = Num 350,
       y = Num (6158144724847821 / 2 ^ 44),
       width = Num 300, height = Num (3514918771674317 / 2 ^ 45),
       url = ''blob:1''\<rparr>]
   \<and> (3514918771674317 / 2 ^ 45) \<noteq> (300 / (1000 / 333) :: real)"
  by (simp add: img_onload_def Let_def exampleWindow_def initialApp_def toString_example
      paste_ops del: js_add.simps js_div.simps)

text \<open>
  Claim C6, amended. For a pasted image of natural size \<open>naturalWidth\<close> by \<open>naturalHeight\<close>,
  a viewport of \<open>innerWidth\<close> by \<open>innerHeight\<close> and the zoom \<open>z\<close> at the time of the paste,
  the object appended to the images has width 300, the height
  \<open>300 / (naturalWidth / naturalHeight)\<close> with both quotients rounded to binary64,
  \<open>x = innerWidth / 2 / z - width / 2\<close> and \<open>y = innerHeight / 2 / z - height / 2\<close>, again
  with every quotient and difference rounded.
\<close>

theorem img_onload_geometry_computed:
  "images (img_onload z window now naturalWidth naturalHeight blobUrl a) =
     images a @
     [\<lparr>id' = ''img-'' @ toString now,
       x = centred (innerWidth window) z displayWidth,
       y = centred (innerHeight window) z (displayHeight naturalWidth naturalHeight),
       width = displayWidth,
       height = displayHeight naturalWidth naturalHeight,
       url = blobUrl\<rparr>]"
  by (simp add: img_onload_def Let_def centred_def displayWidth_def displayHeight_def)

text \<open>
  Scenario C of the specification: a 600 by 400 image, the viewport 1000 by 800, zoom 1;
  here every operation is exact.
\<close>

theorem img_onload_geometry_computed_witness:
  "images (img_onload (Num 1) exampleWindow 1700000000000 600 400 ''blob:1''
             (initialApp exampleWindow exampleRect)) =
     [\<lparr>id' = ''img-1700000000000'', x = Num 350, y = Num 300,
       width = Num 300, height = Num 200, url = ''blob:1''\<rparr>]
   \<and> displayWidth = Num 300
   \<and> displayHeight 600 400 = Num 200
   \<and> centred (innerWidth exampleWindow) (Num 1) displayWidth = Num 350
   \<and> centred (innerHeight exampleWindow) (Num 1) (displayHeight 600 400) = Num 300"
  using img_onload_geometry_computed[of "Num 1" exampleWindow 1700000000000 600 400 "''blob:1''"
      "initialApp exampleWindow exampleRect"]
  by (simp add: exampleWindow_def initialApp_def toString_example centred_def displayWidth_def
      displayHeight_def paste_ops del: js_add.simps js_div.simps)

section \<open>How the handlers change the collections\<close>





lemma resized_target:
  "id' obj = t \<Longrightarrow>
   resized t w h px py obj = obj\<lparr>width := parseInt w, height := parseInt h, x := px, y := py\<rparr>"
  unfolding resized_def by (rule if_P)

lemma resized_other: "id' obj \<noteq> t \<Longrightarrow> resized t w h px py obj = obj"
  unfolding resized_def by (rule if_not_P)

lemma resized_id: "id' (resized t w h px py obj) = id' obj"
  by (cases "id' obj = t") (simp_all add: resized_target resized_other)

lemma dragged_id: "id' (dragged t dx dy obj) = id' obj"
  by (simp add: dragged_def)


section \<open>Decimal strings\<close>











section \<open>Sizes after a resize\<close>

























section \<open>Pointer movement with the eraser\<close>

lemma angle_1: "js_mul (Num (884279719003555 / 281474976710656)) (Num 2) = Num (884279719003555 / 140737488355328)"
proof -
  have "binary64 ((884279719003555 / 281474976710656) * 2) = Num (884279719003555 / 140737488355328)"
    using binary64_eqI[of "2" "(884279719003555 / 281474976710656) * 2" "7074237752028440"]
    by (simp add: power_int_minus)
  then show ?thesis by (simp)
qed

lemma full_turn: "js_mul Math_PI (Num 2) = Num (884279719003555 / 2 ^ 47)"
  using angle_1 by (simp add: Math_PI_def)

lemma keeps_heart_120:
  "\<not> keeps (Num 120) (Num 120) (Num 30)
      \<lparr>id' = ''sticker-1700000000000'', x = Num 100, y = Num 100,
        width = Num 50, height = Num 50, type' = ''fas fa-heart''\<rparr>"
  by (simp add: keeps_def Let_def js_gt_def scenario_ops
      del: js_add.simps js_div.simps Math_pow2.simps Math_sqrt.simps)

text \<open>
  Claim C5 does not hold of the code. \<^verbatim>\<open>onMouseMove\<close> guards the pen with
  \<^verbatim>\<open>isDrawing\<close> but calls \<^verbatim>\<open>erase\<close> whenever the tool is the eraser: on the board
  with the eraser selected, a pointer move to \<open>(120, 120)\<close> with no button held removes the
  sticker and paints the erase disc on the raster surface.
\<close>

theorem pointer_move_without_button_erases:
  "buttons \<lparr>clientX = 120, clientY = 120, buttons = 0\<rparr> = 0
   \<and> tool eraserBoard = Eraser
   \<and> \<not> isDrawing eraserBoard
   \<and> stickers eraserBoard =
       [\<lparr>id' = ''sticker-1700000000000'', x = Num 100, y = Num 100,
         width = Num 50, height = Num 50, type' = ''fas fa-heart''\<rparr>]
   \<and> stickers (state_of (onMouseMove \<lparr>clientX = 120, clientY = 120, buttons = 0\<rparr> eraserBoard)) = []
   \<and> surface (state_of (onMouseMove \<lparr>clientX = 120, clientY = 120, buttons = 0\<rparr> eraserBoard))
       = Some [FilledRect (Num 0) (Num 0) (Num 2000) (Num 1600) ''white'' [],
               FilledRect (Num 90) (Num 90) (Num 60) (Num 60) ''white''
                 [[Arc (Num 120) (Num 120) (Num 30) (Num 0) (Num (884279719003555 / 2 ^ 47))]]]
   \<and> surface eraserBoard = Some [FilledRect (Num 0) (Num 0) (Num 2000) (Num 1600) ''white'' []]"
  by (simp add: onMouseMove_def erase_def eraserBoard_fields exampleRect_def canvasX_def canvasY_def
      ctx_arc_def ctx_save_def ctx_beginPath_def ctx_clip_def ctx_fillRect_def ctx_restore_def
      Let_def js_sub_def keeps_heart_120 full_turn surface_def initialContext_def exampleWindow_def)


section \<open>Ending and extending strokes\<close>

text \<open>
  Claim C8. \<open>endStroke\<close> is idempotent: two calls in a row leave the same stroke state
  (the flag and the last point) and the same raster surface as one call; without an active
  stroke a call changes neither.
\<close>

theorem stopDrawing_idempotent:
  "isDrawing (stopDrawing (stopDrawing a)) = isDrawing (stopDrawing a)
   \<and> lastPosition (stopDrawing (stopDrawing a)) = lastPosition (stopDrawing a)
   \<and> surface (stopDrawing (stopDrawing a)) = surface (stopDrawing a)
   \<and> (\<not> isDrawing a \<and> lastPosition a = None \<longrightarrow>
        isDrawing (stopDrawing a) = isDrawing a
        \<and> lastPosition (stopDrawing a) = lastPosition a
        \<and> surface (stopDrawing a) = surface a)"
  by (cases "contextRef a") (auto simp: stopDrawing_def surface_def ctx_closePath_def)

text \<open>The stroke in progress ended twice; \<open>endStroke\<close> on the board without a stroke.\<close>

theorem stopDrawing_idempotent_witness:
  "isDrawing strokeBoard
   \<and> \<not> isDrawing (stopDrawing (stopDrawing strokeBoard))
   \<and> lastPosition (stopDrawing (stopDrawing strokeBoard)) = None
   \<and> surface (stopDrawing (stopDrawing strokeBoard)) = surface strokeBoard
   \<and> \<not> isDrawing stickerBoard \<and> lastPosition stickerBoard = None
   \<and> \<not> isDrawing (stopDrawing stickerBoard)
   \<and> lastPosition (stopDrawing stickerBoard) = None
   \<and> surface (stopDrawing stickerBoard) = surface stickerBoard"
  using stopDrawing_idempotent[of strokeBoard] stopDrawing_idempotent[of stickerBoard]
  by (simp add: stickerBoard_fields strokeBoard_fields stopDrawing_def surface_def
      ctx_closePath_def)

text \<open>
  Claim C9. When no stroke is in progress (the flag is false or the last point is absent),
  or the active tool is not the pen, \<open>extendStroke\<close> returns the state it was given: the
  raster surface and the rest of the state are unchanged, and nothing is thrown.
\<close>

theorem draw_without_stroke:
  assumes "\<not> isDrawing a \<or> lastPosition a = None \<or> tool a \<noteq> Pen"
  shows "draw e a = a"
  using assms by (auto simp: draw_def)

text \<open>
  Scenario E of the specification: after the stroke was ended, and after the tool was
  switched away from the pen in the middle of the stroke.
\<close>

theorem draw_without_stroke_witness:
  "\<not> isDrawing (stopDrawing strokeBoard)
   \<and> draw \<lparr>clientX = 30, clientY = 30, buttons = 1\<rparr> (stopDrawing strokeBoard)
       = stopDrawing strokeBoard
   \<and> tool switchedBoard = Eraser
   \<and> draw \<lparr>clientX = 30, clientY = 30, buttons = 1\<rparr> switchedBoard = switchedBoard"
  using draw_without_stroke[of "stopDrawing strokeBoard" "\<lparr>clientX = 30, clientY = 30, buttons = 1\<rparr>"]
    draw_without_stroke[of switchedBoard "\<lparr>clientX = 30, clientY = 30, buttons = 1\<rparr>"]
  by (simp add: switchedBoard_fields stopDrawing_def)

section \<open>A click with the sticker tool and no sticker selected\<close>

lemma stopDrawing_surface: "surface (stopDrawing a) = surface a"
  by (cases "contextRef a") (auto simp: stopDrawing_def surface_def ctx_closePath_def)

text \<open>
  Claim C10. A canvas click while the sticker tool is active and the selected sticker is
  empty returns the state unchanged: no object is inserted, the tool stays \<open>sticker\<close>, the
  raster surface is untouched. The same holds of the whole gesture, with the pointer-down
  and pointer-up events the browser sends before the click.
\<close>

theorem click_without_selected_sticker:
  assumes "tool a = Sticker" "selectedSticker a = []"
  shows "handleCanvasClick e now a = Done a
       \<and> stickers (run [MouseDown e, MouseUp, Click e now] a) = stickers a
       \<and> textBoxes (run [MouseDown e, MouseUp, Click e now] a) = textBoxes a
       \<and> images (run [MouseDown e, MouseUp, Click e now] a) = images a
       \<and> tool (run [MouseDown e, MouseUp, Click e now] a) = Sticker
       \<and> surface (run [MouseDown e, MouseUp, Click e now] a) = surface a"
proof -
  have 1: "handleCanvasClick e now a = Done a"
    using assms by (simp add: handleCanvasClick_def Let_def split: option.splits)
  have 2: "startDrawing e a = a" using assms by (simp add: startDrawing_def)
  have 3: "tool (stopDrawing a) = Sticker" "selectedSticker (stopDrawing a) = []"
    using assms by (simp_all add: stopDrawing_def)
  have 4: "handleCanvasClick e now (stopDrawing a) = Done (stopDrawing a)"
    using 3 by (simp add: handleCanvasClick_def Let_def split: option.splits)
  show ?thesis
    using 1 2 4 3(1) stopDrawing_surface[of a] by (simp add: stopDrawing_def)
qed

theorem click_without_selected_sticker_witness:
  "tool (handleToolChange Sticker (initialApp exampleWindow exampleRect)) = Sticker
   \<and> selectedSticker (handleToolChange Sticker (initialApp exampleWindow exampleRect)) = []
   \<and> handleCanvasClick \<lparr>clientX = 100, clientY = 100, buttons = 0\<rparr> 1700000000000
        (handleToolChange Sticker (initialApp exampleWindow exampleRect))
      = Done (handleToolChange Sticker (initialApp exampleWindow exampleRect))"
  using click_without_selected_sticker[of "handleToolChange Sticker (initialApp exampleWindow exampleRect)"
      "\<lparr>clientX = 100, clientY = 100, buttons = 0\<rparr>" 1700000000000]
  by (simp add: handleToolChange_def initialApp_def Let_def)

section \<open>Identifiers and the clock\<close>

lemma handlePaste_pastedItems: "handlePaste (Some pastedItems) = [''blob:1'', ''blob:2'']"
  by (simp add: handlePaste_def pastedItems_def indexOf_def)

lemma pasteLoads_images:
  "images (run pasteLoads (initialApp exampleWindow exampleRect)) =
     [\<lparr>id' = ''img-1700000000000'', x = Num 350, y = Num 300,
       width = Num 300, height = Num 200, url = ''blob:1''\<rparr>,
      \<lparr>id' = ''img-1700000000000'', x = Num 350, y = Num 300,
       width = Num 300, height = Num 200, url = ''blob:2''\<rparr>]"
  by (simp add: pasteLoads_def handlePaste_pastedItems img_onload_def Let_def initialApp_def
      exampleWindow_def toString_example paste_ops del: js_add.simps js_div.simps)

lemma reinsert_after_erase:
  "stickers (run [Click \<lparr>clientX = 120, clientY = 120, buttons = 0\<rparr> 1700000000500] eraserBoard) = []"
  "stickers (run [Click \<lparr>clientX = 120, clientY = 120, buttons = 0\<rparr> 1700000000500,
                  ToolButton Sticker, PickSticker ''fas fa-star'',
                  Click \<lparr>clientX = 300, clientY = 300, buttons = 0\<rparr> 1700000000000] eraserBoard) =
     [\<lparr>id' = ''sticker-1700000000000'', x = Num 300, y = Num 300,
       width = Num 50, height = Num 50, type' = ''fas fa-star''\<rparr>]"
  by (simp_all add: handleCanvasClick_def erase_def eraserBoard_fields exampleRect_def canvasX_def
      canvasY_def ctx_arc_def Let_def js_sub_def keeps_heart_120 full_turn handleToolChange_def
      selectSticker_def STICKER_DEFAULT_SIZE_def toString_example)

text \<open>
  Claim C3 is what the code attempts and misses. An identifier is the prefix of the
  collection followed by the clock reading of the insert, and nothing else makes it
  unique: two inserts that read the same clock value get the same identifier. One paste
  of a clipboard with two image items starts two loads; when both complete in the same
  millisecond the two images of the board carry the same identifier. And an insert that
  reads the clock value of an earlier insert, the wall clock having been set back in
  between, gets the identifier of the earlier object again, here after the sticker of the
  board was erased.
\<close>

theorem same_clock_value_same_id:
  "handlePaste (Some pastedItems) = [''blob:1'', ''blob:2'']
   \<and> pasteLoads =
       [ImageLoaded (Num 1) exampleWindow 1700000000000 600 400 ''blob:1'',
        ImageLoaded (Num 1) exampleWindow 1700000000000 600 400 ''blob:2'']
   \<and> images (initialApp exampleWindow exampleRect) = []
   \<and> map id' (images (run pasteLoads (initialApp exampleWindow exampleRect))) =
       [''img-1700000000000'', ''img-1700000000000'']
   \<and> map url (images (run pasteLoads (initialApp exampleWindow exampleRect))) =
       [''blob:1'', ''blob:2'']
   \<and> \<not> distinct (map id' (images (run pasteLoads (initialApp exampleWindow exampleRect))))
   \<and> map id' (stickers eraserBoard) = [''sticker-1700000000000'']
   \<and> stickers (run [Click \<lparr>clientX = 120, clientY = 120, buttons = 0\<rparr> 1700000000500]
                  eraserBoard) = []
   \<and> stickers (run [Click \<lparr>clientX = 120, clientY = 120, buttons = 0\<rparr> 1700000000500,
                     ToolButton Sticker, PickSticker ''fas fa-star'',
                     Click \<lparr>clientX = 300, clientY = 300, buttons = 0\<rparr> 1700000000000]
                  eraserBoard) =
       [\<lparr>id' = ''sticker-1700000000000'', x = Num 300, y = Num 300,
         width = Num 50, height = Num 50, type' = ''fas fa-star''\<rparr>]"
proof -
  have "pasteLoads =
       [ImageLoaded (Num 1) exampleWindow 1700000000000 600 400 ''blob:1'',
        ImageLoaded (Num 1) exampleWindow 1700000000000 600 400 ''blob:2'']"
    by (simp add: pasteLoads_def handlePaste_pastedItems)
  moreover have "images (initialApp exampleWindow exampleRect) = []"
    by (simp add: initialApp_def)
  moreover have "map id' (stickers eraserBoard) = [''sticker-1700000000000'']"
    by (simp add: eraserBoard_fields)
  ultimately show ?thesis
    by (simp only: handlePaste_pastedItems pasteLoads_images reinsert_after_erase) simp
qed

section \<open>A move changes the position of every object with the identifier\<close>

lemma dragged_absent:
  "target \<notin> id' ` set objs \<Longrightarrow> map (dragged target dx dy) objs = objs"
  by (induction objs) (auto simp: dragged_def)

lemma dragged_unique:
  assumes "distinct (map id' objs)" "i < length objs" "id' (objs ! i) = target"
  shows "map (dragged target dx dy) objs = objs[i := (objs ! i)\<lparr>x := dx, y := dy\<rparr>]"
proof (rule nth_equalityI)
  show "length (map (dragged target dx dy) objs) = length (objs[i := (objs ! i)\<lparr>x := dx, y := dy\<rparr>])"
    by simp
next
  fix j assume "j < length (map (dragged target dx dy) objs)"
  then have j: "j < length objs" by simp
  show "map (dragged target dx dy) objs ! j = objs[i := (objs ! i)\<lparr>x := dx, y := dy\<rparr>] ! j"
  proof (cases "j = i")
    case True
    then show ?thesis using assms(2,3) by (simp add: dragged_def)
  next
    case False
    have "id' (objs ! j) \<noteq> id' (objs ! i)"
      using assms(1,2) j False by (simp add: distinct_conv_nth)
    then show ?thesis using j False assms(3) by (simp add: dragged_def)
  qed
qed

text \<open>
  Claim C7 is what the handlers attempt: \<^verbatim>\<open>onDragStop\<close> selects its object by identifier
  alone, so the move reaches every object that carries the identifier. On the board with
  the two images pasted in the same millisecond, the move of the first image to
  \<open>(10, 20)\<close> also moves the second one, which was at \<open>(350, 300)\<close>.
\<close>

theorem onDragStop_moves_both_images:
  "images (run pasteLoads (initialApp exampleWindow exampleRect)) =
     [\<lparr>id' = ''img-1700000000000'', x = Num 350, y = Num 300,
       width = Num 300, height = Num 200, url = ''blob:1''\<rparr>,
      \<lparr>id' = ''img-1700000000000'', x = Num 350, y = Num 300,
       width = Num 300, height = Num 200, url = ''blob:2''\<rparr>]
   \<and> images (onDragStop_image ''img-1700000000000'' (Num 10) (Num 20)
        (run pasteLoads (initialApp exampleWindow exampleRect))) =
     [\<lparr>id' = ''img-1700000000000'', x = Num 10, y = Num 20,
       width = Num 300, height = Num 200, url = ''blob:1''\<rparr>,
      \<lparr>id' = ''img-1700000000000'', x = Num 10, y = Num 20,
       width = Num 300, height = Num 200, url = ''blob:2''\<rparr>]"
  by (simp add: pasteLoads_images onDragStop_image_def dragged_def)

end
